theory Spec2Isabelle
  imports Main
begin

section \<open>JavaScript numbers on the non-negative integers\<close>

text \<open>
  Every JavaScript number is an IEEE-754 double: 53 significant bits, round to nearest,
  ties to even.  The amounts, timestamps and deadlines of the backend are integers, and
  the only non-integer constant is \<open>0.02\<close>, so doubles are modelled by the integers
  (or dyadic fractions \<open>p / 2 ^ k\<close>) they denote, with the rounding written out.
\<close>

fun bit_length :: "nat \<Rightarrow> nat" where
  "bit_length n = (if n = 0 then 0 else Suc (bit_length (n div 2)))"

declare bit_length.simps [simp del]

definition to_double :: "nat \<Rightarrow> nat" where
  \<comment> \<open>The double nearest to the integer \<open>p\<close> (ties to even).  Scaling by a power of two
      commutes with rounding, so this is also the significand rounding of \<open>p / 2 ^ k\<close>.\<close>
  "to_double p =
     (if p < 2 ^ 53 then p
      else let s = bit_length p - 53; q = p div 2 ^ s; r = p mod 2 ^ s
           in (if 2 ^ s < 2 * r \<or> (2 * r = 2 ^ s \<and> odd q) then q + 1 else q) * 2 ^ s)"

definition parseInt_dec :: "nat \<Rightarrow> nat" where
  \<comment> \<open>\<open>parseInt(x)\<close> where \<open>x\<close> is the decimal string of a \<open>BN\<close> (\<open>bn.toString()\<close>):
      the digits denote the integer exactly and the result is the nearest double.\<close>
  "parseInt_dec n = to_double n"

definition num_add :: "nat \<Rightarrow> nat \<Rightarrow> nat" where
  \<comment> \<open>\<open>a + b\<close> on two integer-valued doubles.\<close>
  "num_add a b = to_double (a + b)"

definition num_sub :: "nat \<Rightarrow> nat \<Rightarrow> nat" where
  \<comment> \<open>\<open>a - b\<close> on two integer-valued doubles with \<open>b \<le> a\<close> (the only use here).\<close>
  "num_sub a b = to_double (a - b)"

definition M002 :: nat where
  \<comment> \<open>The literal \<open>0.02\<close> is the double \<open>M002 / 2 ^ 58\<close>.\<close>
  "M002 = 5764607523034235"

definition floor_times_002 :: "nat \<Rightarrow> nat" where
  \<comment> \<open>\<open>Math.floor(t * 0.02)\<close> for an integer-valued double \<open>t\<close>: the exact product
      \<open>t * M002 / 2 ^ 58\<close> is rounded to a double, then floored.\<close>
  "floor_times_002 t = to_double (t * M002) div 2 ^ 58"

subsection \<open>parseInt on arbitrary strings\<close>

definition is_ws :: "char \<Rightarrow> bool" where
  \<comment> \<open>White space skipped by \<open>parseInt\<close> (TAB, LF, VT, FF, CR, SP, NBSP).\<close>
  "is_ws c = ((of_char c :: nat) \<in> {9, 10, 11, 12, 13, 32, 160})"

definition digit_val :: "char \<Rightarrow> nat option" where
  "digit_val c =
     (let n = (of_char c :: nat) in
      if 48 \<le> n \<and> n \<le> 57 then Some (n - 48)
      else if 97 \<le> n \<and> n \<le> 122 then Some (n - 87)
      else if 65 \<le> n \<and> n \<le> 90 then Some (n - 55)
      else None)"

definition radix_digit :: "nat \<Rightarrow> char \<Rightarrow> bool" where
  "radix_digit r c = (case digit_val c of Some d \<Rightarrow> d < r | None \<Rightarrow> False)"

fun digits_value :: "nat \<Rightarrow> nat \<Rightarrow> string \<Rightarrow> nat" where
  "digits_value r acc [] = acc"
| "digits_value r acc (c # cs) =
     digits_value r (acc * r + (case digit_val c of Some d \<Rightarrow> d | None \<Rightarrow> 0)) cs"

definition strip_sign :: "string \<Rightarrow> bool \<times> string" where
  "strip_sign s =
     (case s of
        c # cs \<Rightarrow> if c = CHR ''-'' then (True, cs)
                  else if c = CHR ''+'' then (False, cs) else (False, s)
      | [] \<Rightarrow> (False, s))"

definition strip_radix :: "string \<Rightarrow> nat \<times> string" where
  "strip_radix s =
     (case s of
        a # b # cs \<Rightarrow> if a = CHR ''0'' \<and> (b = CHR ''x'' \<or> b = CHR ''X'') then (16, cs) else (10, s)
      | _ \<Rightarrow> (10, s))"

definition js_parseInt :: "string \<Rightarrow> int option" where
  \<comment> \<open>\<open>parseInt(s)\<close> with no radix argument; \<open>None\<close> is \<open>NaN\<close>.  A value too large
      for a double is \<open>Infinity\<close> in JavaScript and a huge integer here; every use below
      only compares the value, and treats both alike.\<close>
  "js_parseInt s =
     (let (neg, s1) = strip_sign (dropWhile is_ws s);
          (r, s2) = strip_radix s1;
          z = takeWhile (radix_digit r) s2
      in if z = [] then None
         else Some ((if neg then - 1 else 1) * int (to_double (digits_value r 0 z))))"

subsection \<open>Decimal rendering\<close>

definition digit_char :: "nat \<Rightarrow> char" where
  "digit_char d = char_of (48 + d)"

fun show_dec :: "nat \<Rightarrow> string" where
  \<comment> \<open>\<open>bn.toString()\<close> of a non-negative big number.\<close>
  "show_dec n = (if n < 10 then [digit_char n] else show_dec (n div 10) @ [digit_char (n mod 10)])"

declare show_dec.simps [simp del]

definition show_int :: "int \<Rightarrow> string" where
  \<comment> \<open>\<open>bn.toString()\<close> of a signed big number.\<close>
  "show_int t = (if t < 0 then CHR ''-'' # show_dec (nat (- t)) else show_dec (nat t))"

section \<open>Derived addresses (services/blockchain.js)\<close>

type_synonym bytes = "nat list"
type_synonym pubkey = "nat list"

definition Buffer_from_string :: "string \<Rightarrow> bytes" where
  \<comment> \<open>\<open>Buffer.from("...")\<close> on an ASCII literal.\<close>
  "Buffer_from_string s = map of_char s"

definition Buffer_from_array1 :: "int \<Rightarrow> bytes" where
  \<comment> \<open>\<open>Buffer.from([n])\<close>: the element is stored as an unsigned byte, \<open>n & 255\<close>.\<close>
  "Buffer_from_array1 n = [nat (n mod 256)]"

text \<open>
  \<open>PublicKey.findProgramAddressSync(seeds, programId)\<close> belongs to the ledger SDK; it is
  a parameter \<open>fpa\<close> of the derivations, which only choose the seeds.
\<close>

definition getGlobalStatePDA :: "(bytes list \<Rightarrow> pubkey \<Rightarrow> pubkey) \<Rightarrow> pubkey \<Rightarrow> pubkey" where
  "getGlobalStatePDA fpa programId = fpa [Buffer_from_string ''global_state''] programId"

definition getCurrencyConfigPDA :: "(bytes list \<Rightarrow> pubkey \<Rightarrow> pubkey) \<Rightarrow> pubkey \<Rightarrow> int \<Rightarrow> pubkey" where
  "getCurrencyConfigPDA fpa programId currencyId =
     fpa [Buffer_from_string ''currency'', Buffer_from_array1 currencyId] programId"

definition getSavingsMintPDA :: "(bytes list \<Rightarrow> pubkey \<Rightarrow> pubkey) \<Rightarrow> pubkey \<Rightarrow> int \<Rightarrow> pubkey" where
  "getSavingsMintPDA fpa programId currencyId =
     fpa [Buffer_from_string ''savings_mint'', Buffer_from_array1 currencyId] programId"

definition getUserAccountPDA :: "(bytes list \<Rightarrow> pubkey \<Rightarrow> pubkey) \<Rightarrow> pubkey \<Rightarrow> pubkey \<Rightarrow> pubkey" where
  "getUserAccountPDA fpa programId walletPubkey =
     fpa [Buffer_from_string ''user'', walletPubkey] programId"

definition getGoalAccountPDA ::
  "(bytes list \<Rightarrow> pubkey \<Rightarrow> pubkey) \<Rightarrow> pubkey \<Rightarrow> pubkey \<Rightarrow> int \<Rightarrow> pubkey" where
  "getGoalAccountPDA fpa programId walletPubkey goalIndex =
     fpa [Buffer_from_string ''goal'', walletPubkey, Buffer_from_array1 goalIndex] programId"

definition getFaucetConfigPDA :: "(bytes list \<Rightarrow> pubkey \<Rightarrow> pubkey) \<Rightarrow> pubkey \<Rightarrow> pubkey" where
  "getFaucetConfigPDA fpa programId = fpa [Buffer_from_string ''faucet_config''] programId"

definition getUserFaucetAccountPDA ::
  "(bytes list \<Rightarrow> pubkey \<Rightarrow> pubkey) \<Rightarrow> pubkey \<Rightarrow> pubkey \<Rightarrow> pubkey" where
  "getUserFaucetAccountPDA fpa programId walletPubkey =
     fpa [Buffer_from_string ''user_faucet'', walletPubkey] programId"

definition demo_fpa :: "bytes list \<Rightarrow> pubkey \<Rightarrow> pubkey" where
  \<comment> \<open>An injective stand-in for the SDK's derivation, used to run examples: distinct seed
      lists give distinct addresses.\<close>
  "demo_fpa seeds programId = concat (map (\<lambda>s. length s # s) seeds) @ programId"

section \<open>Wallet-signature authentication (middleware/authMiddleware.js)\<close>

text \<open>
  The process environment, the clock and the libraries the backend calls are collected in
  one record.  \<open>PublicKey_new\<close> is \<open>new PublicKey(s)\<close> (\<open>None\<close>: it throws),
  \<open>bs58_decode\<close> is \<open>bs58.decode\<close> (\<open>None\<close>: it throws) and \<open>nacl_verify\<close> is
  \<open>nacl.sign.detached.verify(message, signature, publicKey)\<close> (\<open>None\<close>: it throws, as
  it does on a signature of the wrong size).
\<close>

record auth_env =
  SIMPLE_AUTH :: "string option"
  Date_now :: nat
  PublicKey_new :: "string \<Rightarrow> pubkey option"
  bs58_decode :: "string \<Rightarrow> bytes option"
  nacl_verify :: "bytes \<Rightarrow> bytes \<Rightarrow> pubkey \<Rightarrow> bool option"

text \<open>
  What the middleware reads of a request: the four headers, \<open>req.params.address\<close> and
  \<open>req.body.walletAddress\<close> (\<open>None\<close> when the body or the field is absent).
  The server mounts the middleware with \<open>app.use\<close> on the prefixes \<open>/api/users\<close>,
  \<open>/api/goals\<close> and \<open>/api/transactions\<close>, before a route pattern with \<open>:address\<close>
  is matched, so \<open>params_address\<close> is \<open>None\<close> when the middleware runs there.
\<close>

record request =
  x_wallet_address :: "string option"
  x_signature :: "string option"
  x_message :: "string option"
  x_timestamp :: "string option"
  params_address :: "string option"
  body_walletAddress :: "string option"

datatype auth_outcome =
    AuthReject nat string  \<comment> \<open>\<open>res.status(code).json({error: ...})\<close>\<close>
  | AuthNext string pubkey \<comment> \<open>\<open>next()\<close> with \<open>req.authenticatedWallet\<close>, \<open>req.walletPublicKey\<close>\<close>

definition falsy :: "string option \<Rightarrow> bool" where
  \<comment> \<open>\<open>!v\<close> for a value that is \<open>undefined\<close> or a string.\<close>
  "falsy v = (v = None \<or> v = Some [])"

definition str_of :: "string option \<Rightarrow> string" where
  "str_of v = (case v of Some s \<Rightarrow> s | None \<Rightarrow> [])"

definition utf8_encode :: "string \<Rightarrow> bytes" where
  \<comment> \<open>\<open>Buffer.from(message, 'utf-8')\<close> on a header value (one code point per character).\<close>
  "utf8_encode s =
     concat (map (\<lambda>c. let n = (of_char c :: nat)
                         in if n < 128 then [n] else [192 + n div 64, 128 + n mod 64]) s)"

definition fiveMinutes :: int where
  "fiveMinutes = 5 * 60 * 1000"

definition ownership_check :: "request \<Rightarrow> string \<Rightarrow> pubkey \<Rightarrow> auth_outcome" where
  "ownership_check req walletAddress publicKey =
     (if \<not> falsy (params_address req) \<and> str_of (params_address req) \<noteq> walletAddress
      then AuthReject 403 ''Forbidden''
      else if \<not> falsy (body_walletAddress req) \<and> str_of (body_walletAddress req) \<noteq> walletAddress
      then AuthReject 403 ''Forbidden''
      else AuthNext walletAddress publicKey)"

definition verify_signature :: "auth_env \<Rightarrow> request \<Rightarrow> auth_outcome" where
  \<comment> \<open>Full mode after the timestamp check: address format, signature, ownership.\<close>
  "verify_signature env req =
     (case PublicKey_new env (str_of (x_wallet_address req)) of
        None \<Rightarrow> AuthReject 401 ''Invalid wallet address''
      | Some publicKey \<Rightarrow>
          (case bs58_decode env (str_of (x_signature req)) of
             None \<Rightarrow> AuthReject 401 ''Invalid signature format''
           | Some signatureBytes \<Rightarrow>
               (case nacl_verify env (utf8_encode (str_of (x_message req)))
                       signatureBytes publicKey of
                  None \<Rightarrow> AuthReject 500 ''Authentication failed''
                | Some isValid \<Rightarrow>
                    if \<not> isValid then AuthReject 401 ''Invalid signature''
                    else ownership_check req (str_of (x_wallet_address req)) publicKey)))"

definition verify_full :: "auth_env \<Rightarrow> request \<Rightarrow> auth_outcome" where
  "verify_full env req =
     (if falsy (x_wallet_address req) \<or> falsy (x_signature req)
         \<or> falsy (x_message req) \<or> falsy (x_timestamp req)
      then AuthReject 401 ''Missing authentication headers''
      else case js_parseInt (str_of (x_timestamp req)) of
        None \<Rightarrow> AuthReject 401 ''Invalid timestamp''
      | Some requestTimestamp \<Rightarrow>
          if \<bar>int (Date_now env) - requestTimestamp\<bar> > fiveMinutes
          then AuthReject 401 ''Timestamp expired''
          else verify_signature env req)"

definition verify_simple :: "auth_env \<Rightarrow> request \<Rightarrow> auth_outcome" where
  "verify_simple env req =
     (if falsy (x_wallet_address req) \<or> falsy (x_timestamp req)
      then AuthReject 401 ''Missing authentication headers''
      else case PublicKey_new env (str_of (x_wallet_address req)) of
        None \<Rightarrow> AuthReject 401 ''Invalid wallet address''
      | Some publicKey \<Rightarrow>
          (case js_parseInt (str_of (x_timestamp req)) of
             None \<Rightarrow> AuthReject 401 ''Invalid timestamp''
           | Some requestTimestamp \<Rightarrow> AuthNext (str_of (x_wallet_address req)) publicKey))"

definition verifyWalletSignature :: "auth_env \<Rightarrow> request \<Rightarrow> auth_outcome" where
  "verifyWalletSignature env req =
     (if SIMPLE_AUTH env = Some ''true'' then verify_simple env req else verify_full env req)"

text \<open>Stand-ins for the libraries, used to run the middleware on examples.\<close>

definition demo_PublicKey :: "string \<Rightarrow> pubkey option" where
  "demo_PublicKey s = (if 32 \<le> length s \<and> length s \<le> 44 then Some (map of_char s) else None)"

definition demo_auth_env :: "string option \<Rightarrow> nat \<Rightarrow> auth_env" where
  "demo_auth_env simple now =
     \<lparr> SIMPLE_AUTH = simple, Date_now = now, PublicKey_new = demo_PublicKey,
       bs58_decode = (\<lambda>s. Some (map of_char s)),
       nacl_verify = (\<lambda>m s k. Some (s = k)) \<rparr>"

definition walletA :: string where
  "walletA = ''AAAAAAAAAAAAAAAAAAAAAAAAAAAAAAAA''"

definition walletB :: string where
  "walletB = ''BBBBBBBBBBBBBBBBBBBBBBBBBBBBBBBB''"

section \<open>Chain state reader (services/blockchain.js)\<close>

datatype goal_mode = Lite | Pro
datatype risk_tier = Low | Medium | High
datatype goal_status = Active | Completed | Withdrawn

text \<open>
  The records are the objects the reader returns.  A field the reader renders with
  \<open>toString()\<close> from a big number is kept as the integer its decimal digits denote; a
  public key is kept as its base-58 text; the single key of an Anchor enum object is a
  constructor.
\<close>

record GlobalState =
  gs_authority :: string
  gs_treasury :: string
  gs_rewardPool :: string
  gs_earlyWithdrawalPenalty :: nat
  gs_totalCurrencies :: nat

record CurrencyConfig =
  cc_currencyId :: nat
  cc_baseTokenMint :: string
  cc_savingsTokenMint :: string
  cc_liteApy :: nat
  cc_proLowRiskApy :: nat
  cc_proMediumRiskApy :: nat
  cc_proHighRiskApy :: nat
  cc_totalDeposited :: nat
  cc_totalGoals :: nat

record UserAccount =
  ua_owner :: string
  ua_totalGoalsCreated :: nat
  ua_activeGoals :: nat
  ua_lifetimeDeposits :: nat
  ua_lifetimeWithdrawals :: nat

record GoalAccount =
  ga_owner :: string
  ga_goalIndex :: nat
  ga_name :: string
  ga_targetAmount :: nat
  ga_currentAmount :: nat
  ga_mode :: goal_mode
  ga_riskTier :: "risk_tier option"
  ga_currencyId :: nat
  ga_createdAt :: int
  ga_deadline :: int
  ga_status :: goal_status
  ga_principal :: nat
  ga_accruedInterest :: nat
  ga_lastInterestUpdate :: int
  ga_consecutiveDepositDays :: nat
  ga_lastDepositDay :: int
  ga_totalDeposits :: nat
  ga_firstTimeBonus :: bool
  ga_nftMint :: "string option"

record FaucetConfig =
  fc_authority :: string
  fc_tokenMint :: string
  fc_amountPerClaim :: nat
  fc_cooldownPeriod :: int
  fc_maxClaimsPerDay :: nat
  fc_totalClaimed :: nat
  fc_totalUsers :: nat

record UserFaucetAccount =
  fa_user :: string
  fa_lastClaimTime :: int
  fa_claimsToday :: nat
  fa_totalClaims :: nat

datatype 'a fetched =
    Fetched 'a          \<comment> \<open>\<open>program.account.X.fetch(pda)\<close> resolved, fields copied\<close>
  | FetchThrows string  \<comment> \<open>it threw an \<open>Error\<close> with this message\<close>

text \<open>
  The service object and the rest of the process: the program id, the SDK's address
  derivations, one fetch per account type (keyed by derived address), the latest
  blockhash (\<open>None\<close>: the RPC call throws), two well-known addresses of the token
  library and the faucet switch of the environment.
\<close>

record env = auth_env +
  programId :: pubkey
  findProgramAddressSync :: "bytes list \<Rightarrow> pubkey \<Rightarrow> pubkey"
  getAssociatedTokenAddressSync :: "pubkey \<Rightarrow> pubkey \<Rightarrow> bool \<Rightarrow> pubkey option"
  fetch_globalState :: "pubkey \<Rightarrow> GlobalState fetched"
  fetch_currencyConfig :: "pubkey \<Rightarrow> CurrencyConfig fetched"
  fetch_userAccount :: "pubkey \<Rightarrow> UserAccount fetched"
  fetch_goalAccount :: "pubkey \<Rightarrow> GoalAccount fetched"
  fetch_faucetConfig :: "pubkey \<Rightarrow> FaucetConfig fetched"
  fetch_userFaucetAccount :: "pubkey \<Rightarrow> UserFaucetAccount fetched"
  getLatestBlockhash :: "string option"
  TOKEN_PROGRAM_ID :: pubkey
  SYSVAR_RENT_PUBKEY :: pubkey
  FAUCET_ENABLED :: "string option"

fun str_includes :: "string \<Rightarrow> string \<Rightarrow> bool" where
  \<comment> \<open>\<open>s.includes(sub)\<close>\<close>
  "str_includes [] sub = (sub = [])"
| "str_includes (c # cs) sub = (take (length sub) (c # cs) = sub \<or> str_includes cs sub)"

definition account_missing :: "string \<Rightarrow> bool" where
  "account_missing message = str_includes message ''Account does not exist''"

definition and_then :: "string + 'a \<Rightarrow> ('a \<Rightarrow> string + 'b) \<Rightarrow> string + 'b" where
  \<comment> \<open>Sequencing inside a \<open>try\<close> block: \<open>Inl\<close> is a thrown error and ends the block.\<close>
  "and_then m f = (case m of Inl e \<Rightarrow> Inl e | Inr x \<Rightarrow> f x)"

definition new_PublicKey :: "env \<Rightarrow> string \<Rightarrow> string + pubkey" where
  "new_PublicKey env s =
     (case PublicKey_new env s of None \<Rightarrow> Inl ''Invalid public key input'' | Some k \<Rightarrow> Inr k)"

definition null_if_missing :: "string + 'a \<Rightarrow> string + 'a option" where
  \<comment> \<open>The \<open>catch\<close> block of the readers that test the message of the error.\<close>
  "null_if_missing r =
     (case r of
        Inr a \<Rightarrow> Inr (Some a)
      | Inl message \<Rightarrow> if account_missing message then Inr None else Inl message)"

definition from_fetch :: "'a fetched \<Rightarrow> string + 'a" where
  "from_fetch f = (case f of Fetched a \<Rightarrow> Inr a | FetchThrows message \<Rightarrow> Inl message)"

definition getGlobalState :: "env \<Rightarrow> string + GlobalState" where
  "getGlobalState env =
     from_fetch (fetch_globalState env
       (getGlobalStatePDA (findProgramAddressSync env) (programId env)))"

definition getCurrencyConfig :: "env \<Rightarrow> int \<Rightarrow> string + CurrencyConfig" where
  "getCurrencyConfig env currencyId =
     from_fetch (fetch_currencyConfig env
       (getCurrencyConfigPDA (findProgramAddressSync env) (programId env) currencyId))"

definition getUserAccount :: "env \<Rightarrow> string \<Rightarrow> string + UserAccount option" where
  "getUserAccount env userWallet =
     null_if_missing
       (and_then (new_PublicKey env userWallet) (\<lambda>walletPubkey.
          from_fetch (fetch_userAccount env
            (getUserAccountPDA (findProgramAddressSync env) (programId env) walletPubkey))))"

definition getGoalAccount :: "env \<Rightarrow> string \<Rightarrow> int \<Rightarrow> string + GoalAccount option" where
  "getGoalAccount env userWallet goalIndex =
     null_if_missing
       (and_then (new_PublicKey env userWallet) (\<lambda>walletPubkey.
          from_fetch (fetch_goalAccount env
            (getGoalAccountPDA (findProgramAddressSync env) (programId env)
               walletPubkey goalIndex))))"

definition getFaucetConfig :: "env \<Rightarrow> string + FaucetConfig option" where
  "getFaucetConfig env =
     null_if_missing
       (from_fetch (fetch_faucetConfig env
          (getFaucetConfigPDA (findProgramAddressSync env) (programId env))))"

definition getUserFaucetAccount :: "env \<Rightarrow> string \<Rightarrow> string + UserFaucetAccount option" where
  "getUserFaucetAccount env userWallet =
     null_if_missing
       (and_then (new_PublicKey env userWallet) (\<lambda>walletPubkey.
          from_fetch (fetch_userFaucetAccount env
            (getUserFaucetAccountPDA (findProgramAddressSync env) (programId env)
               walletPubkey))))"

section \<open>Input validation (utils/validation.js)\<close>

text \<open>
  A JSON value in an amount position.  The code only tests it for truthiness, renders it
  with \<open>toString()\<close> and hands it to \<open>BN\<close>, so a number is carried by its rendering
  (\<open>''1.5''\<close>, \<open>''-3''\<close>, \<open>''1e+21''\<close>, ...); the number zero renders as \<open>''0''\<close>.
\<close>

datatype js_amount =
    AmountUndefined
  | AmountNull
  | AmountString string
  | AmountNumber string

definition amount_falsy :: "js_amount \<Rightarrow> bool" where
  \<comment> \<open>\<open>!amount\<close>\<close>
  "amount_falsy a =
     (case a of
        AmountUndefined \<Rightarrow> True
      | AmountNull \<Rightarrow> True
      | AmountString s \<Rightarrow> s = []
      | AmountNumber t \<Rightarrow> t = ''0'')"

definition amount_toString :: "js_amount \<Rightarrow> string" where
  "amount_toString a =
     (case a of AmountString s \<Rightarrow> s | AmountNumber t \<Rightarrow> t
      | AmountUndefined \<Rightarrow> ''undefined'' | AmountNull \<Rightarrow> ''null'')"

definition all_digits :: "string \<Rightarrow> bool" where
  \<comment> \<open>\<open>/^\d+$/.test(s)\<close>\<close>
  "all_digits s = (s \<noteq> [] \<and> list_all (radix_digit 10) s)"

definition MAX_U64 :: int where
  "MAX_U64 = 18446744073709551615"

definition validateAmount :: "js_amount \<Rightarrow> string + string" where
  \<comment> \<open>\<open>Inl error\<close> is \<open>{valid: false, error}\<close>, \<open>Inr value\<close> is \<open>{valid: true, value}\<close>.\<close>
  "validateAmount amount =
     (if amount = AmountUndefined \<or> amount = AmountNull \<or> amount = AmountString []
      then Inl ''Amount is required''
      else let amountStr = amount_toString amount in
        if \<not> all_digits amountStr then Inl ''Amount must be a positive integer''
        else let amountBigInt = int (digits_value 10 0 amountStr) in
          if amountBigInt < 0 then Inl ''Amount must be positive''
          else if amountBigInt > MAX_U64
          then Inl ''Amount exceeds maximum allowed value (u64 max)''
          else Inr amountStr)"

definition validateCurrencyId :: "int \<Rightarrow> string + unit" where
  "validateCurrencyId currencyId =
     (if currencyId \<noteq> 0 \<and> currencyId \<noteq> 1
      then Inl ''Invalid currency ID. Must be 0 (USDC) or 1 (IDRX)''
      else Inr ())"

section \<open>Transaction builders (utils/transactions.js)\<close>

datatype instruction =
    InitializeUserIx
  | CreateGoalIx string int goal_mode "risk_tier option" int int
  | DepositIx int
  | WithdrawCompletedIx
  | WithdrawEarlyIx
  | ClaimTokensIx

record transaction =
  tx_instruction :: instruction
  tx_accounts :: "(string \<times> pubkey) list"
  tx_recentBlockhash :: string
  tx_feePayer :: pubkey

definition number_trunc :: "string \<Rightarrow> int option" where
  \<comment> \<open>The integer part of a JSON number, read off its rendering.  A rendering with an
      exponent is at least \<open>1e+21\<close> (\<open>None\<close>: too large for what follows) or below
      \<open>1e-6\<close> in size (integer part 0); otherwise the digits before the point are the
      integer part.\<close>
  "number_trunc t =
     (let (neg, s) = strip_sign t;
          whole = takeWhile (radix_digit 10) s;
          rest = dropWhile (radix_digit 10) s
      in if CHR ''e'' \<in> set rest
         then (if CHR ''+'' \<in> set rest then None else Some 0)
         else Some ((if neg then - 1 else 1) * int (digits_value 10 0 whole)))"

definition new_BN :: "js_amount \<Rightarrow> string + int" where
  \<comment> \<open>\<open>new BN(v)\<close> in base 10.  A string loses its white space and an optional leading
      minus sign, and every other character must be a decimal digit (the library asserts
      it); no digits give zero.  A number must be below \<open>2 ^ 53\<close> in size (the library
      asserts it) and is cut to its integer part.  \<open>undefined\<close> gives zero; \<open>null\<close> gives
      a number without digits, on which the instruction encoder throws.\<close>
  "new_BN v =
     (case v of
        AmountUndefined \<Rightarrow> Inr 0
      | AmountNull \<Rightarrow> Inl ''Cannot read properties of null''
      | AmountString s \<Rightarrow>
          let s1 = filter (\<lambda>c. \<not> is_ws c) s;
              neg = (case s1 of c # cs \<Rightarrow> c = CHR ''-'' | [] \<Rightarrow> False);
              ds = (if neg then tl s1 else s1)
          in if list_all (radix_digit 10) ds
             then Inr ((if neg then - 1 else 1) * int (digits_value 10 0 ds))
             else Inl ''Invalid character''
      | AmountNumber t \<Rightarrow>
          (case number_trunc t of
             None \<Rightarrow> Inl ''Assertion failed''
           | Some n \<Rightarrow> if \<bar>n\<bar> < 2 ^ 53 then Inr n else Inl ''Assertion failed''))"

definition new_BN_number :: "int \<Rightarrow> string + int" where
  "new_BN_number n = (if \<bar>n\<bar> < 2 ^ 53 then Inr n else Inl ''Assertion failed'')"

definition token_address :: "env \<Rightarrow> pubkey \<Rightarrow> pubkey \<Rightarrow> bool \<Rightarrow> string + pubkey" where
  "token_address env mint owner allowOwnerOffCurve =
     (case getAssociatedTokenAddressSync env mint owner allowOwnerOffCurve of
        None \<Rightarrow> Inl ''TokenOwnerOffCurveError'' | Some a \<Rightarrow> Inr a)"

definition finish_tx ::
  "env \<Rightarrow> instruction \<Rightarrow> (string \<times> pubkey) list \<Rightarrow> pubkey \<Rightarrow> string + transaction" where
  \<comment> \<open>\<open>.accounts({...}).transaction()\<close>, then the blockhash and the fee payer.\<close>
  "finish_tx env ix accounts userPubkey =
     (case getLatestBlockhash env of
        None \<Rightarrow> Inl ''failed to get recent blockhash''
      | Some blockhash \<Rightarrow>
          Inr \<lparr> tx_instruction = ix, tx_accounts = accounts,
                tx_recentBlockhash = blockhash, tx_feePayer = userPubkey \<rparr>)"

definition SystemProgram_programId :: pubkey where
  "SystemProgram_programId = replicate 32 0"

definition PublicKey_default :: pubkey where
  "PublicKey_default = replicate 32 0"

record create_goal_result =
  cg_transaction :: transaction
  cg_goalAccount :: pubkey
  cg_goalIndex :: nat

definition riskTierEnum_of :: "string \<Rightarrow> string option \<Rightarrow> string + risk_tier option" where
  "riskTierEnum_of mode riskTier =
     (if mode = ''pro''
      then if falsy riskTier then Inl ''Risk tier is required for Pro mode''
           else Inr (Some (if str_of riskTier = ''low'' then Low
                           else if str_of riskTier = ''medium'' then Medium else High))
      else Inr None)"

definition buildCreateGoalTx ::
  "env \<Rightarrow> string \<Rightarrow> string \<Rightarrow> js_amount \<Rightarrow> string \<Rightarrow> string option \<Rightarrow> int \<Rightarrow> int
     \<Rightarrow> string + create_goal_result" where
  "buildCreateGoalTx env userWallet name targetAmount mode riskTier currencyId deadline =
     and_then (new_PublicKey env userWallet) (\<lambda>userPubkey.
     and_then (getUserAccount env userWallet) (\<lambda>userAccount.
       case userAccount of
         None \<Rightarrow> Inl ''User account not initialized. Please initialize user first.''
       | Some ua \<Rightarrow>
           let goalIndex = ua_totalGoalsCreated ua;
               fpa = findProgramAddressSync env;
               userAccountPDA = getUserAccountPDA fpa (programId env) userPubkey;
               goalAccountPDA = getGoalAccountPDA fpa (programId env) userPubkey (int goalIndex);
               currencyConfigPDA = getCurrencyConfigPDA fpa (programId env) currencyId;
               nftMintPDA = PublicKey_default;
               modeEnum = (if mode = ''lite'' then Lite else Pro)
           in
           and_then (riskTierEnum_of mode riskTier) (\<lambda>riskTierEnum.
           and_then (new_BN targetAmount) (\<lambda>target.
           and_then (new_BN_number deadline) (\<lambda>dl.
           and_then (finish_tx env
               (CreateGoalIx name target modeEnum riskTierEnum currencyId dl)
               [(''user'', userPubkey), (''userAccount'', userAccountPDA),
                (''goalAccount'', goalAccountPDA), (''currencyConfig'', currencyConfigPDA),
                (''nftMint'', nftMintPDA), (''systemProgram'', SystemProgram_programId),
                (''tokenProgram'', TOKEN_PROGRAM_ID env), (''rent'', SYSVAR_RENT_PUBKEY env)]
               userPubkey) (\<lambda>tx.
           Inr \<lparr> cg_transaction = tx, cg_goalAccount = goalAccountPDA,
                 cg_goalIndex = goalIndex \<rparr>))))))"

record deposit_result =
  dp_transaction :: transaction
  dp_savingsTokenMint :: pubkey
  dp_userSavingsTokenAccount :: pubkey

definition buildDepositTx ::
  "env \<Rightarrow> string \<Rightarrow> int \<Rightarrow> js_amount \<Rightarrow> int \<Rightarrow> string + deposit_result" where
  "buildDepositTx env userWallet goalIndex amount currencyId =
     and_then (new_PublicKey env userWallet) (\<lambda>userPubkey.
       let fpa = findProgramAddressSync env;
           userAccountPDA = getUserAccountPDA fpa (programId env) userPubkey;
           goalAccountPDA = getGoalAccountPDA fpa (programId env) userPubkey goalIndex;
           currencyConfigPDA = getCurrencyConfigPDA fpa (programId env) currencyId;
           savingsMintPDA = getSavingsMintPDA fpa (programId env) currencyId
       in
       and_then (getCurrencyConfig env currencyId) (\<lambda>currencyConfig.
       and_then (new_PublicKey env (cc_baseTokenMint currencyConfig)) (\<lambda>baseTokenMint.
       and_then (token_address env baseTokenMint userPubkey False) (\<lambda>userBaseTokenAccount.
       and_then (token_address env savingsMintPDA userPubkey False) (\<lambda>userSavingsTokenAccount.
       and_then (new_BN amount) (\<lambda>amountBN.
       and_then (finish_tx env (DepositIx amountBN)
           [(''user'', userPubkey), (''userAccount'', userAccountPDA),
            (''goalAccount'', goalAccountPDA), (''currencyConfig'', currencyConfigPDA),
            (''baseTokenMint'', baseTokenMint), (''savingsTokenMint'', savingsMintPDA),
            (''userBaseTokenAccount'', userBaseTokenAccount),
            (''userSavingsTokenAccount'', userSavingsTokenAccount),
            (''tokenProgram'', TOKEN_PROGRAM_ID env), (''systemProgram'', SystemProgram_programId)]
           userPubkey) (\<lambda>tx.
       Inr \<lparr> dp_transaction = tx, dp_savingsTokenMint = savingsMintPDA,
             dp_userSavingsTokenAccount = userSavingsTokenAccount \<rparr>)))))))"

text \<open>
  The two withdrawal builders return objects with different keys; a key that is absent
  from an object is \<open>None\<close>.  Amounts are the numbers the code renders with
  \<open>toString()\<close>.
\<close>

record withdraw_result =
  wr_transaction :: transaction
  wr_principal :: nat
  wr_interest :: nat
  wr_totalAmount :: "nat option"
  wr_totalBeforePenalty :: "nat option"
  wr_penalty :: "nat option"
  wr_totalAfterPenalty :: "nat option"

definition buildWithdrawCompletedTx :: "env \<Rightarrow> string \<Rightarrow> int \<Rightarrow> string + withdraw_result" where
  "buildWithdrawCompletedTx env userWallet goalIndex =
     and_then (new_PublicKey env userWallet) (\<lambda>userPubkey.
     and_then (getGoalAccount env userWallet goalIndex) (\<lambda>goalOpt.
       case goalOpt of
         None \<Rightarrow> Inl ''Goal not found''
       | Some goal \<Rightarrow>
           let currencyId = int (ga_currencyId goal);
               fpa = findProgramAddressSync env;
               userAccountPDA = getUserAccountPDA fpa (programId env) userPubkey;
               goalAccountPDA = getGoalAccountPDA fpa (programId env) userPubkey goalIndex;
               globalStatePDA = getGlobalStatePDA fpa (programId env);
               currencyConfigPDA = getCurrencyConfigPDA fpa (programId env) currencyId;
               savingsMintPDA = getSavingsMintPDA fpa (programId env) currencyId
           in
           and_then (getCurrencyConfig env currencyId) (\<lambda>currencyConfig.
           and_then (new_PublicKey env (cc_baseTokenMint currencyConfig)) (\<lambda>baseTokenMint.
           and_then (getGlobalState env) (\<lambda>globalState.
           and_then (new_PublicKey env (gs_treasury globalState)) (\<lambda>treasury.
           and_then (token_address env baseTokenMint userPubkey False) (\<lambda>userBaseTokenAccount.
           and_then (token_address env savingsMintPDA userPubkey False) (\<lambda>userSavingsTokenAccount.
           and_then (token_address env baseTokenMint treasury False) (\<lambda>treasuryBaseTokenAccount.
           and_then (finish_tx env WithdrawCompletedIx
               [(''user'', userPubkey), (''userAccount'', userAccountPDA),
                (''goalAccount'', goalAccountPDA), (''globalState'', globalStatePDA),
                (''currencyConfig'', currencyConfigPDA), (''baseTokenMint'', baseTokenMint),
                (''savingsTokenMint'', savingsMintPDA),
                (''userBaseTokenAccount'', userBaseTokenAccount),
                (''userSavingsTokenAccount'', userSavingsTokenAccount),
                (''treasuryBaseTokenAccount'', treasuryBaseTokenAccount),
                (''tokenProgram'', TOKEN_PROGRAM_ID env)]
               userPubkey) (\<lambda>tx.
           let totalAmount = num_add (parseInt_dec (ga_currentAmount goal))
                                     (parseInt_dec (ga_accruedInterest goal))
           in Inr \<lparr> wr_transaction = tx, wr_principal = ga_currentAmount goal,
                    wr_interest = ga_accruedInterest goal, wr_totalAmount = Some totalAmount,
                    wr_totalBeforePenalty = None, wr_penalty = None,
                    wr_totalAfterPenalty = None \<rparr>))))))))))"

definition buildWithdrawEarlyTx :: "env \<Rightarrow> string \<Rightarrow> int \<Rightarrow> string + withdraw_result" where
  "buildWithdrawEarlyTx env userWallet goalIndex =
     and_then (new_PublicKey env userWallet) (\<lambda>userPubkey.
     and_then (getGoalAccount env userWallet goalIndex) (\<lambda>goalOpt.
       case goalOpt of
         None \<Rightarrow> Inl ''Goal not found''
       | Some goal \<Rightarrow>
           let currencyId = int (ga_currencyId goal);
               fpa = findProgramAddressSync env;
               userAccountPDA = getUserAccountPDA fpa (programId env) userPubkey;
               goalAccountPDA = getGoalAccountPDA fpa (programId env) userPubkey goalIndex;
               globalStatePDA = getGlobalStatePDA fpa (programId env);
               currencyConfigPDA = getCurrencyConfigPDA fpa (programId env) currencyId;
               savingsMintPDA = getSavingsMintPDA fpa (programId env) currencyId
           in
           and_then (getCurrencyConfig env currencyId) (\<lambda>currencyConfig.
           and_then (new_PublicKey env (cc_baseTokenMint currencyConfig)) (\<lambda>baseTokenMint.
           and_then (getGlobalState env) (\<lambda>globalState.
           and_then (new_PublicKey env (gs_treasury globalState)) (\<lambda>treasury.
           and_then (new_PublicKey env (gs_rewardPool globalState)) (\<lambda>rewardPool.
           and_then (token_address env baseTokenMint userPubkey False) (\<lambda>userBaseTokenAccount.
           and_then (token_address env savingsMintPDA userPubkey False) (\<lambda>userSavingsTokenAccount.
           and_then (token_address env baseTokenMint treasury False) (\<lambda>treasuryBaseTokenAccount.
           and_then (token_address env baseTokenMint rewardPool False) (\<lambda>rewardPoolBaseTokenAccount.
           and_then (finish_tx env WithdrawEarlyIx
               [(''user'', userPubkey), (''userAccount'', userAccountPDA),
                (''goalAccount'', goalAccountPDA), (''globalState'', globalStatePDA),
                (''currencyConfig'', currencyConfigPDA), (''baseTokenMint'', baseTokenMint),
                (''savingsTokenMint'', savingsMintPDA),
                (''userBaseTokenAccount'', userBaseTokenAccount),
                (''userSavingsTokenAccount'', userSavingsTokenAccount),
                (''treasuryBaseTokenAccount'', treasuryBaseTokenAccount),
                (''rewardPoolBaseTokenAccount'', rewardPoolBaseTokenAccount),
                (''tokenProgram'', TOKEN_PROGRAM_ID env)]
               userPubkey) (\<lambda>tx.
           let totalAmount = num_add (parseInt_dec (ga_currentAmount goal))
                                     (parseInt_dec (ga_accruedInterest goal));
               penalty = floor_times_002 totalAmount;
               amountAfterPenalty = num_sub totalAmount penalty
           in Inr \<lparr> wr_transaction = tx, wr_principal = ga_currentAmount goal,
                    wr_interest = ga_accruedInterest goal, wr_totalAmount = None,
                    wr_totalBeforePenalty = Some totalAmount, wr_penalty = Some penalty,
                    wr_totalAfterPenalty = Some amountAfterPenalty \<rparr>))))))))))))"

record claim_faucet_result =
  cf_transaction :: transaction
  cf_userTokenAccount :: pubkey

definition buildClaimFaucetTx :: "env \<Rightarrow> string \<Rightarrow> string \<Rightarrow> string + claim_faucet_result" where
  "buildClaimFaucetTx env userWallet tokenMint =
     and_then (new_PublicKey env userWallet) (\<lambda>userPubkey.
     and_then (new_PublicKey env tokenMint) (\<lambda>tokenMintPubkey.
       let fpa = findProgramAddressSync env;
           faucetConfigPDA = getFaucetConfigPDA fpa (programId env);
           userFaucetAccountPDA = getUserFaucetAccountPDA fpa (programId env) userPubkey
       in
       and_then (token_address env tokenMintPubkey userPubkey False) (\<lambda>userTokenAccount.
       and_then (token_address env tokenMintPubkey faucetConfigPDA True) (\<lambda>faucetTokenAccount.
       and_then (finish_tx env ClaimTokensIx
           [(''user'', userPubkey), (''faucetConfig'', faucetConfigPDA),
            (''userFaucetAccount'', userFaucetAccountPDA), (''tokenMint'', tokenMintPubkey),
            (''faucetTokenAccount'', faucetTokenAccount),
            (''userTokenAccount'', userTokenAccount),
            (''tokenProgram'', TOKEN_PROGRAM_ID env), (''systemProgram'', SystemProgram_programId)]
           userPubkey) (\<lambda>tx.
       Inr \<lparr> cf_transaction = tx, cf_userTokenAccount = userTokenAccount \<rparr>)))))"

section \<open>Routes (routes/goals.js, routes/transactions.js)\<close>

datatype 'a http =
    Reject nat string  \<comment> \<open>\<open>res.status(code).json({error: ...})\<close>\<close>
  | Ok200 'a           \<comment> \<open>\<open>res.json({success: true, ...})\<close>\<close>

definition internal_error :: "'a http" where
  \<comment> \<open>The \<open>catch\<close> block of every route.\<close>
  "internal_error = Reject 500 ''Internal server error''"

definition now_seconds :: "env \<Rightarrow> int" where
  \<comment> \<open>\<open>Math.floor(Date.now() / 1000)\<close>; the quotient is exact on the range of dates.\<close>
  "now_seconds env = int (Date_now env div 1000)"

definition parseInt_time :: "int \<Rightarrow> int" where
  \<comment> \<open>\<open>parseInt\<close> of the decimal string of a signed 64-bit field.\<close>
  "parseInt_time t = (if t < 0 then - int (to_double (nat (- t))) else int (to_double (nat t)))"

subsection \<open>POST /api/goals/create\<close>

record create_body =
  cb_walletAddress :: "string option"
  cb_name :: "string option"
  cb_targetAmount :: js_amount
  cb_mode :: "string option"
  cb_riskTier :: "string option"
  cb_currencyId :: "int option"
  cb_deadline :: "int option"

record create_response =
  cr_transaction :: transaction
  cr_goalAccount :: pubkey
  cr_goalIndex :: nat
  cr_mode :: string
  cr_riskTier :: "string option"
  cr_apy_basis_points :: nat

definition create_respond ::
  "env \<Rightarrow> string \<Rightarrow> string option \<Rightarrow> int \<Rightarrow> int \<Rightarrow> create_goal_result \<Rightarrow> create_response http" where
  \<comment> \<open>After the builder: the APY of the currency and the ISO date of the deadline
      (\<open>toISOString\<close> throws outside the range of dates).\<close>
  "create_respond env mode riskTier currencyId deadline result =
     (case getCurrencyConfig env currencyId of
        Inl e \<Rightarrow> internal_error
      | Inr currencyConfig \<Rightarrow>
          if \<bar>deadline * 1000\<bar> > 8640000000000000 then internal_error
          else Ok200 \<lparr> cr_transaction = cg_transaction result,
                 cr_goalAccount = cg_goalAccount result,
                 cr_goalIndex = cg_goalIndex result,
                 cr_mode = mode,
                 cr_riskTier = (if mode = ''pro'' then riskTier else None),
                 cr_apy_basis_points =
                   (if mode = ''lite'' then cc_liteApy currencyConfig
                    else if str_of riskTier = ''low'' then cc_proLowRiskApy currencyConfig
                    else if str_of riskTier = ''medium'' then cc_proMediumRiskApy currencyConfig
                    else cc_proHighRiskApy currencyConfig) \<rparr>)"

definition create_route :: "env \<Rightarrow> create_body \<Rightarrow> create_response http" where
  "create_route env body =
     (let walletAddress = cb_walletAddress body; name = cb_name body;
          targetAmount = cb_targetAmount body; mode = cb_mode body;
          riskTier = cb_riskTier body; currencyId = cb_currencyId body;
          deadline = cb_deadline body
      in
      if falsy walletAddress \<or> falsy name \<or> amount_falsy targetAmount \<or> falsy mode
         \<or> currencyId = None \<or> deadline = None \<or> deadline = Some 0
      then Reject 400 ''Missing required fields''
      else if mode = Some ''pro'' \<and> falsy riskTier then Reject 400 ''Missing risk tier''
      else if mode \<noteq> Some ''lite'' \<and> mode \<noteq> Some ''pro'' then Reject 400 ''Invalid mode''
      else if mode = Some ''pro'' \<and> riskTier \<noteq> Some ''low'' \<and> riskTier \<noteq> Some ''medium''
              \<and> riskTier \<noteq> Some ''high''
      then Reject 400 ''Invalid risk tier''
      else case getUserAccount env (str_of walletAddress) of
        Inl e \<Rightarrow> internal_error
      | Inr None \<Rightarrow> Reject 400 ''User not initialized''
      | Inr (Some userAccount) \<Rightarrow>
          if ua_activeGoals userAccount \<ge> 5 then Reject 400 ''Maximum goals reached''
          else let minDeadline = now_seconds env + 90 * 24 * 60 * 60;
                   dl = (case deadline of Some d \<Rightarrow> d | None \<Rightarrow> 0);
                   cid = (case currencyId of Some c \<Rightarrow> c | None \<Rightarrow> 0)
               in if dl < minDeadline then Reject 400 ''Invalid deadline''
                  else case buildCreateGoalTx env (str_of walletAddress) (str_of name)
                              targetAmount (str_of mode) riskTier cid dl of
                    Inl e \<Rightarrow> internal_error
                  | Inr result \<Rightarrow> create_respond env (str_of mode) riskTier cid dl result)"

subsection \<open>POST /api/transactions/deposit\<close>

record deposit_body =
  db_walletAddress :: "string option"
  db_goalIndex :: "int option"
  db_amount :: js_amount
  db_currencyId :: "int option"

record deposit_response =
  dr_transaction :: transaction
  dr_depositAmount :: string
  dr_currentAmount :: nat
  dr_newTotal :: "nat option"

definition deposit_route :: "env \<Rightarrow> deposit_body \<Rightarrow> deposit_response http" where
  "deposit_route env body =
     (let walletAddress = db_walletAddress body; amount = db_amount body in
      if falsy walletAddress \<or> db_goalIndex body = None \<or> amount_falsy amount
         \<or> db_currencyId body = None
      then Reject 400 ''Missing required fields''
      else let goalIndex = (case db_goalIndex body of Some i \<Rightarrow> i | None \<Rightarrow> 0);
               currencyId = (case db_currencyId body of Some c \<Rightarrow> c | None \<Rightarrow> 0)
      in case validateAmount amount of
        Inl e \<Rightarrow> Reject 400 ''Invalid amount''
      | Inr v \<Rightarrow>
       (case validateCurrencyId currencyId of
          Inl e \<Rightarrow> Reject 400 ''Invalid currency''
        | Inr u \<Rightarrow>
         (case getGoalAccount env (str_of walletAddress) goalIndex of
            Inl e \<Rightarrow> internal_error
          | Inr None \<Rightarrow> Reject 404 ''Goal not found''
          | Inr (Some goal) \<Rightarrow>
              if ga_status goal \<noteq> Active then Reject 400 ''Goal not active''
              else if int (ga_currencyId goal) \<noteq> currencyId then Reject 400 ''Currency mismatch''
              else case buildDepositTx env (str_of walletAddress) goalIndex amount currencyId of
                Inl e \<Rightarrow> internal_error
              | Inr result \<Rightarrow>
                  Ok200 \<lparr> dr_transaction = dp_transaction result,
                          dr_depositAmount = amount_toString amount,
                          dr_currentAmount = ga_currentAmount goal,
                          dr_newTotal =
                            (case js_parseInt (amount_toString amount) of
                               None \<Rightarrow> None
                             | Some a \<Rightarrow> Some (num_add (parseInt_dec (ga_currentAmount goal))
                                                        (nat a))) \<rparr>)))"

subsection \<open>POST /api/transactions/withdraw\<close>

record withdraw_body =
  wb_walletAddress :: "string option"
  wb_goalIndex :: "int option"
  wb_early :: bool  \<comment> \<open>truthiness of the \<open>early\<close> field\<close>

record withdraw_response =
  wd_transaction :: transaction
  wd_withdrawalType :: string
  wd_savingsTokenToBurn :: nat
  wd_principal :: nat
  wd_interest :: nat
  wd_totalBeforePenalty :: "nat option"
  wd_penalty :: nat
  wd_finalAmount :: "nat option"

definition or_else :: "'a option \<Rightarrow> 'a option \<Rightarrow> 'a option" where
  \<comment> \<open>\<open>a || b\<close> on keys that hold a non-empty string when present.\<close>
  "or_else a b = (case a of Some x \<Rightarrow> Some x | None \<Rightarrow> b)"

definition withdraw_respond ::
  "bool \<Rightarrow> GoalAccount \<Rightarrow> string + withdraw_result \<Rightarrow> withdraw_response http" where
  "withdraw_respond early_branch goal built =
     (case built of
        Inl e \<Rightarrow> internal_error
      | Inr result \<Rightarrow>
          Ok200 \<lparr> wd_transaction = wr_transaction result,
                  wd_withdrawalType = (if early_branch then ''early'' else ''completed''),
                  wd_savingsTokenToBurn = ga_currentAmount goal,
                  wd_principal = wr_principal result,
                  wd_interest = wr_interest result,
                  wd_totalBeforePenalty =
                    or_else (wr_totalBeforePenalty result) (wr_totalAmount result),
                  wd_penalty = (case wr_penalty result of Some p \<Rightarrow> p | None \<Rightarrow> 0),
                  wd_finalAmount =
                    or_else (wr_totalAfterPenalty result) (wr_totalAmount result) \<rparr>)"

definition withdraw_route :: "env \<Rightarrow> withdraw_body \<Rightarrow> withdraw_response http" where
  "withdraw_route env body =
     (let walletAddress = wb_walletAddress body; early = wb_early body in
      if falsy walletAddress \<or> wb_goalIndex body = None
      then Reject 400 ''Missing required fields''
      else let goalIndex = (case wb_goalIndex body of Some i \<Rightarrow> i | None \<Rightarrow> 0)
      in case getGoalAccount env (str_of walletAddress) goalIndex of
        Inl e \<Rightarrow> internal_error
      | Inr None \<Rightarrow> Reject 404 ''Goal not found''
      | Inr (Some goal) \<Rightarrow>
          if parseInt_dec (ga_currentAmount goal) = 0 then Reject 400 ''No funds to withdraw''
          else let now = now_seconds env;
                   isEarly = (parseInt_time (ga_deadline goal) > now)
               in if isEarly \<or> early
                  then withdraw_respond (isEarly \<or> early) goal
                         (buildWithdrawEarlyTx env (str_of walletAddress) goalIndex)
                  else withdraw_respond (isEarly \<or> early) goal
                         (buildWithdrawCompletedTx env (str_of walletAddress) goalIndex))"

subsection \<open>POST /api/transactions/faucet/claim\<close>

record faucet_body =
  fb_walletAddress :: "string option"
  fb_tokenMint :: "string option"
  fb_currencyId :: "int option"

record faucet_response =
  fr_transaction :: transaction
  fr_amount :: "nat option"
  fr_userTokenAccount :: pubkey

definition faucet_mint :: "env \<Rightarrow> faucet_body \<Rightarrow> string + string option" where
  \<comment> \<open>"Determine token mint": the body's mint, else the base mint of the currency.\<close>
  "faucet_mint env body =
     (if falsy (fb_tokenMint body) \<and> fb_currencyId body \<noteq> None
      then and_then (getCurrencyConfig env (case fb_currencyId body of Some c \<Rightarrow> c | None \<Rightarrow> 0))
             (\<lambda>currencyConfig. Inr (Some (cc_baseTokenMint currencyConfig)))
      else Inr (fb_tokenMint body))"

definition cooldownPeriod :: int where
  "cooldownPeriod = 3600"

definition faucet_rate_limit :: "env \<Rightarrow> UserFaucetAccount option \<Rightarrow> (nat \<times> string) option" where
  \<comment> \<open>The rejection of the rate-limit block, if any.  The difference of the two times is
      only compared with the cooldown, which rounding of the difference cannot change.\<close>
  "faucet_rate_limit env userFaucetAccount =
     (case userFaucetAccount of
        None \<Rightarrow> None
      | Some account \<Rightarrow>
          let now = now_seconds env;
              timeSinceLastClaim = now - parseInt_time (fa_lastClaimTime account)
          in if timeSinceLastClaim < cooldownPeriod then Some (429, ''Cooldown active'')
             else if fa_claimsToday account \<ge> 10 then Some (429, ''Daily limit reached'')
             else None)"

definition faucet_build :: "env \<Rightarrow> string \<Rightarrow> string \<Rightarrow> faucet_response http" where
  "faucet_build env walletAddress mintAddress =
     (case buildClaimFaucetTx env walletAddress mintAddress of
        Inl e \<Rightarrow> internal_error
      | Inr result \<Rightarrow>
          (case getFaucetConfig env of
             Inl e \<Rightarrow> internal_error
           | Inr faucetConfig \<Rightarrow>
               Ok200 \<lparr> fr_transaction = cf_transaction result,
                       fr_amount = map_option fc_amountPerClaim faucetConfig,
                       fr_userTokenAccount = cf_userTokenAccount result \<rparr>))"

definition faucet_route :: "env \<Rightarrow> faucet_body \<Rightarrow> faucet_response http" where
  "faucet_route env body =
     (let walletAddress = fb_walletAddress body in
      if falsy walletAddress then Reject 400 ''Missing required field''
      else case faucet_mint env body of
        Inl e \<Rightarrow> internal_error
      | Inr mintAddress \<Rightarrow>
          if falsy mintAddress then Reject 400 ''Missing token information''
          else if FAUCET_ENABLED env \<noteq> Some ''true'' then Reject 403 ''Faucet disabled''
          else case getUserFaucetAccount env (str_of walletAddress) of
            Inl e \<Rightarrow> internal_error
          | Inr userFaucetAccount \<Rightarrow>
              (case faucet_rate_limit env userFaucetAccount of
                 Some (code, error) \<Rightarrow> Reject code error
               | None \<Rightarrow> faucet_build env (str_of walletAddress) (str_of mintAddress)))"

section \<open>An example deployment\<close>

text \<open>
  Stand-ins for the ledger and the libraries, used to run the routes on examples: every
  address of 32 to 44 characters is a public key, token accounts are the two keys side by
  side, and the ledger holds the given goal and faucet account at every address.
\<close>

definition mintU :: string where
  "mintU = ''UUUUUUUUUUUUUUUUUUUUUUUUUUUUUUUU''"

definition demo_goal :: "nat \<Rightarrow> nat \<Rightarrow> int \<Rightarrow> GoalAccount" where
  "demo_goal current interest deadline =
     \<lparr> ga_owner = walletA, ga_goalIndex = 0, ga_name = ''car'', ga_targetAmount = 1000000,
       ga_currentAmount = current, ga_mode = Lite, ga_riskTier = None, ga_currencyId = 0,
       ga_createdAt = 1600000000, ga_deadline = deadline, ga_status = Active,
       ga_principal = current, ga_accruedInterest = interest,
       ga_lastInterestUpdate = 1600000000, ga_consecutiveDepositDays = 0,
       ga_lastDepositDay = 0, ga_totalDeposits = 1, ga_firstTimeBonus = True,
       ga_nftMint = None \<rparr>"

definition demo_env ::
  "nat \<Rightarrow> UserAccount fetched \<Rightarrow> GoalAccount fetched \<Rightarrow> UserFaucetAccount fetched
     \<Rightarrow> GlobalState fetched \<Rightarrow> env" where
  "demo_env now user goal faucet global =
     \<lparr> SIMPLE_AUTH = None, Date_now = now, PublicKey_new = demo_PublicKey,
       bs58_decode = (\<lambda>s. Some (map of_char s)),
       nacl_verify = (\<lambda>m s k. Some (s = k)),
       programId = [7],
       findProgramAddressSync = demo_fpa,
       getAssociatedTokenAddressSync = (\<lambda>mint owner off. Some (mint @ owner)),
       fetch_globalState = (\<lambda>a. global),
       fetch_currencyConfig = (\<lambda>a. Fetched
          \<lparr> cc_currencyId = 0, cc_baseTokenMint = mintU, cc_savingsTokenMint = mintU,
            cc_liteApy = 500, cc_proLowRiskApy = 600, cc_proMediumRiskApy = 800,
            cc_proHighRiskApy = 1200, cc_totalDeposited = 0, cc_totalGoals = 0 \<rparr>),
       fetch_userAccount = (\<lambda>a. user),
       fetch_goalAccount = (\<lambda>a. goal),
       fetch_faucetConfig = (\<lambda>a. FetchThrows ''Account does not exist or has no data''),
       fetch_userFaucetAccount = (\<lambda>a. faucet),
       getLatestBlockhash = Some ''blockhash'',
       TOKEN_PROGRAM_ID = [6],
       SYSVAR_RENT_PUBKEY = [5],
       FAUCET_ENABLED = Some ''true'' \<rparr>"

definition demo_global :: "GlobalState fetched" where
  "demo_global = Fetched \<lparr> gs_authority = walletB, gs_treasury = walletB,
      gs_rewardPool = walletB, gs_earlyWithdrawalPenalty = 200, gs_totalCurrencies = 2 \<rparr>"

definition demo_user :: "UserAccount fetched" where
  "demo_user = Fetched \<lparr> ua_owner = walletA, ua_totalGoalsCreated = 1, ua_activeGoals = 1,
      ua_lifetimeDeposits = 0, ua_lifetimeWithdrawals = 0 \<rparr>"

definition missing :: "'a fetched" where
  "missing = FetchThrows ''Account does not exist or has no data''"

definition empty_ledger_env :: env where
  \<comment> \<open>The same deployment before anything was initialised on the ledger.\<close>
  "empty_ledger_env =
     (demo_env 0 missing missing missing missing)\<lparr> fetch_currencyConfig := (\<lambda>a. missing) \<rparr>"

section \<open>Decimal strings and rounding\<close>

subsection \<open>parseInt of a rendered integer\<close>

lemma of_char_digit_char: "d < 10 \<Longrightarrow> (of_char (digit_char d) :: nat) = 48 + d"
  by (simp add: digit_char_def)

lemma digit_val_digit_char: "d < 10 \<Longrightarrow> digit_val (digit_char d) = Some d"
  by (simp add: digit_val_def of_char_digit_char)

lemma radix_digit_digit_char: "d < 10 \<Longrightarrow> radix_digit 10 (digit_char d)"
  by (simp add: radix_digit_def digit_val_digit_char)

lemma digit_char_plain:
  assumes "d < 10"
  shows "\<not> is_ws (digit_char d)" "digit_char d \<noteq> CHR ''-''" "digit_char d \<noteq> CHR ''+''"
    "digit_char d \<noteq> CHR ''x''" "digit_char d \<noteq> CHR ''X''"
proof -
  have v: "(of_char (digit_char d) :: nat) = 48 + d" using assms by (rule of_char_digit_char)
  show "\<not> is_ws (digit_char d)" using assms by (simp add: is_ws_def v)
  have "(of_char (digit_char d) :: nat) \<noteq> of_char CHR ''-''" using assms by (simp add: v)
  then show "digit_char d \<noteq> CHR ''-''" by auto
  have "(of_char (digit_char d) :: nat) \<noteq> of_char CHR ''+''" using assms by (simp add: v)
  then show "digit_char d \<noteq> CHR ''+''" by auto
  have "(of_char (digit_char d) :: nat) \<noteq> of_char CHR ''x''" using assms by (simp add: v)
  then show "digit_char d \<noteq> CHR ''x''" by auto
  have "(of_char (digit_char d) :: nat) \<noteq> of_char CHR ''X''" using assms by (simp add: v)
  then show "digit_char d \<noteq> CHR ''X''" by auto
qed

lemma digits_value_snoc:
  "digits_value r acc (xs @ [c]) =
     digits_value r acc xs * r + (case digit_val c of Some d \<Rightarrow> d | None \<Rightarrow> 0)"
  by (induction xs arbitrary: acc) simp_all

lemma digits_value_show_dec: "digits_value 10 0 (show_dec n) = n"
proof (induction n rule: show_dec.induct)
  case (1 n)
  show ?case
  proof (cases "n < 10")
    case True
    then show ?thesis by (subst show_dec.simps) (simp add: digit_val_digit_char)
  next
    case False
    then have "digits_value 10 0 (show_dec (n div 10)) = n div 10" by (rule 1)
    then show ?thesis
      using False by (subst show_dec.simps) (simp add: digits_value_snoc digit_val_digit_char)
  qed
qed

lemma show_dec_digits: "list_all (radix_digit 10) (show_dec n)"
proof (induction n rule: show_dec.induct)
  case (1 n)
  show ?case
  proof (cases "n < 10")
    case True
    then show ?thesis by (subst show_dec.simps) (simp add: radix_digit_digit_char)
  next
    case False
    then have "list_all (radix_digit 10) (show_dec (n div 10))" by (rule 1)
    then show ?thesis
      using False by (subst show_dec.simps) (simp add: radix_digit_digit_char)
  qed
qed

lemma show_dec_shape:
  "\<exists>d cs. d < 10 \<and> show_dec n = digit_char d # cs \<and> (\<forall>c \<in> set cs. \<exists>e < 10. c = digit_char e)"
proof (induction n rule: show_dec.induct)
  case (1 n)
  show ?case
  proof (cases "n < 10")
    case True
    then show ?thesis by (subst show_dec.simps) auto
  next
    case False
    then obtain d cs where d: "d < 10" and s: "show_dec (n div 10) = digit_char d # cs"
      and cs: "\<forall>c \<in> set cs. \<exists>e < 10. c = digit_char e"
      using 1 by blast
    have "\<exists>e < 10. digit_char (n mod 10) = digit_char e"
      by (rule exI [of _ "n mod 10"]) simp
    then have "\<forall>c \<in> set (cs @ [digit_char (n mod 10)]). \<exists>e < 10. c = digit_char e"
      using cs by simp
    moreover have "show_dec n = digit_char d # (cs @ [digit_char (n mod 10)])"
      using False s by (subst show_dec.simps) simp
    ultimately show ?thesis using d by blast
  qed
qed

lemma strip_radix_show_dec: "strip_radix (show_dec n) = (10, show_dec n)"
proof -
  from show_dec_shape obtain d cs where d: "d < 10" and s: "show_dec n = digit_char d # cs"
    and cs: "\<forall>c \<in> set cs. \<exists>e < 10. c = digit_char e"
    by blast
  show ?thesis
  proof (cases cs)
    case Nil
    then show ?thesis by (simp add: s strip_radix_def)
  next
    case (Cons b bs)
    with cs obtain e where "e < 10" "b = digit_char e" by auto
    then have "b \<noteq> CHR ''x''" "b \<noteq> CHR ''X''" by (simp_all add: digit_char_plain)
    then show ?thesis by (simp add: s Cons strip_radix_def)
  qed
qed

lemma js_parseInt_show_dec: "js_parseInt (show_dec n) = Some (int (parseInt_dec n))"
proof -
  from show_dec_shape obtain d cs where d: "d < 10" and s: "show_dec n = digit_char d # cs"
    by blast
  have ws: "dropWhile is_ws (show_dec n) = show_dec n"
    using d by (simp add: s digit_char_plain)
  have sg: "strip_sign (show_dec n) = (False, show_dec n)"
    using d by (simp add: s strip_sign_def digit_char_plain)
  have tk: "takeWhile (radix_digit 10) (show_dec n) = show_dec n"
    using show_dec_digits [of n] by (simp add: list_all_iff)
  have ne: "show_dec n \<noteq> []" by (simp add: s)
  show ?thesis
    by (simp add: js_parseInt_def ws sg strip_radix_show_dec tk ne digits_value_show_dec
        parseInt_dec_def)
qed

lemma js_parseInt_show_int: "js_parseInt (show_int t) = Some (parseInt_time t)"
proof (cases "t < 0")
  case False
  then show ?thesis
    using js_parseInt_show_dec [of "nat t"]
    by (simp add: show_int_def parseInt_time_def parseInt_dec_def)
next
  case True
  let ?s = "show_dec (nat (- t))"
  have sg: "strip_sign (CHR ''-'' # ?s) = (True, ?s)" by (simp add: strip_sign_def)
  have ws: "\<not> is_ws CHR ''-''" by (simp add: is_ws_def)
  have tk: "takeWhile (radix_digit 10) ?s = ?s"
    using show_dec_digits [of "nat (- t)"] by (simp add: list_all_iff)
  from show_dec_shape [of "nat (- t)"] have ne: "?s \<noteq> []" by auto
  show ?thesis
    using True
    by (simp add: show_int_def js_parseInt_def ws sg strip_radix_show_dec tk ne
        digits_value_show_dec parseInt_time_def)
qed

subsection \<open>Rounding to a double\<close>

lemma bit_length_le: "n < 2 ^ k \<Longrightarrow> bit_length n \<le> k"
proof (induction k arbitrary: n)
  case 0
  then show ?case by (simp add: bit_length.simps)
next
  case (Suc k)
  show ?case
  proof (cases "n = 0")
    case True
    then show ?thesis by (simp add: bit_length.simps)
  next
    case False
    from Suc.prems have "n div 2 < 2 ^ k" by simp
    then have "bit_length (n div 2) \<le> k" by (rule Suc.IH)
    with False show ?thesis by (subst bit_length.simps) simp
  qed
qed

lemma bit_length_gt: "2 ^ k \<le> n \<Longrightarrow> k < bit_length n"
proof (induction k arbitrary: n)
  case 0
  then show ?case by (subst bit_length.simps) simp
next
  case (Suc k)
  then have "2 ^ k \<le> n div 2" by simp
  then have "k < bit_length (n div 2)" by (rule Suc.IH)
  moreover have "(0::nat) < 2 ^ Suc k" by simp
  with Suc.prems have "n \<noteq> 0" by linarith
  ultimately show ?case by (subst bit_length.simps) simp
qed

lemma bit_length_lower: "n \<noteq> 0 \<Longrightarrow> 2 ^ (bit_length n - 1) \<le> n"
proof (induction n rule: bit_length.induct)
  case (1 n)
  show ?case
  proof (cases "n div 2 = 0")
    case True
    with 1(2) have "n = 1" by (simp add: div_eq_0_iff) 
    then show ?thesis by (simp add: bit_length.simps)
  next
    case False
    with 1 have ih: "2 ^ (bit_length (n div 2) - 1) \<le> n div 2" by simp
    from False have "bit_length (n div 2) \<noteq> 0" by (subst bit_length.simps) simp
    then have "bit_length n - 1 = Suc (bit_length (n div 2) - 1)"
      using 1(2) by (subst bit_length.simps) simp
    then have "(2::nat) ^ (bit_length n - 1) = 2 * 2 ^ (bit_length (n div 2) - 1)" by simp
    also have "\<dots> \<le> 2 * (n div 2)" using ih by simp
    also have "\<dots> \<le> n" by simp
    finally show ?thesis .
  qed
qed

lemma to_double_small: "p < 2 ^ 53 \<Longrightarrow> to_double p = p"
  by (simp add: to_double_def)

lemma to_double_ge_trunc:
  "\<not> p < 2 ^ 53 \<Longrightarrow> (p div 2 ^ (bit_length p - 53)) * 2 ^ (bit_length p - 53) \<le> to_double p"
  by (simp add: to_double_def Let_def)

lemma to_double_le_half:
  assumes "\<not> p < 2 ^ 53"
  shows "2 * to_double p \<le> 2 * p + 2 ^ (bit_length p - 53)"
proof -
  define s where "s = bit_length p - 53"
  define q where "q = p div 2 ^ s"
  define r where "r = p mod 2 ^ s"
  have p: "p = q * 2 ^ s + r" unfolding q_def r_def by (rule div_mult_mod_eq [symmetric])
  show ?thesis
  proof (cases "2 ^ s < 2 * r \<or> (2 * r = 2 ^ s \<and> odd q)")
    case True
    then have "to_double p = (q + 1) * 2 ^ s"
      using assms by (simp add: to_double_def Let_def s_def q_def r_def)
    moreover from True have "2 ^ s \<le> 2 * r" by auto
    ultimately show ?thesis unfolding s_def [symmetric] using p by (simp add: algebra_simps)
  next
    case False
    then have "to_double p = q * 2 ^ s"
      using assms by (simp add: to_double_def Let_def s_def q_def r_def)
    then show ?thesis unfolding s_def [symmetric] using p by simp
  qed
qed

lemma le_trunc:
  fixes a d p :: nat
  assumes "d dvd a" and "a \<le> p"
  shows "a \<le> (p div d) * d"
proof -
  from assms(2) have "a div d \<le> p div d" by (rule div_le_mono)
  then have "(a div d) * d \<le> (p div d) * d" by (rule mult_le_mono1)
  moreover from assms(1) have "(a div d) * d = a" by (rule dvd_div_mult_self)
  ultimately show ?thesis by simp
qed

lemma to_double_large:
  assumes "\<not> p < 2 ^ 53"
  shows "2 ^ 53 \<le> to_double p"
proof -
  define b where "b = bit_length p"
  from assms have "(2::nat) ^ 53 \<le> p" by simp
  then have b: "53 < b" unfolding b_def by (rule bit_length_gt)
  from assms have "p \<noteq> 0" by auto
  then have low: "2 ^ (b - 1) \<le> p" unfolding b_def by (rule bit_length_lower)
  have "b - 53 \<le> b - 1" by simp
  then have "(2::nat) ^ (b - 53) dvd 2 ^ (b - 1)" by (rule le_imp_power_dvd)
  then have "2 ^ (b - 1) \<le> (p div 2 ^ (b - 53)) * 2 ^ (b - 53)" using low by (rule le_trunc)
  also have "\<dots> \<le> to_double p" unfolding b_def by (rule to_double_ge_trunc [OF assms])
  finally have "2 ^ (b - 1) \<le> to_double p" .
  moreover have "(2::nat) ^ 53 \<le> 2 ^ (b - 1)" using b by (intro power_increasing) simp_all
  ultimately show ?thesis by (rule le_trans [rotated])
qed

lemma to_double_eq_0_iff: "to_double p = 0 \<longleftrightarrow> p = 0"
proof (cases "p < 2 ^ 53")
  case True
  then show ?thesis by (simp add: to_double_small)
next
  case False
  from to_double_large [OF False] have "to_double p \<noteq> 0" by simp
  moreover from False have "p \<noteq> 0" by auto
  ultimately show ?thesis by simp
qed

lemma mult_M002: "50 * M002 = 2 ^ 58 + 6"
  by (simp add: M002_def)

lemma floor_times_002_exact:
  assumes "t < 2 ^ 53"
  shows "floor_times_002 t = t div 50"
proof -
  define k where "k = t div 50"
  define j where "j = t mod 50"
  define p where "p = t * M002"
  have t: "t = 50 * k + j" and j: "j < 50" by (simp_all add: k_def j_def)
  have p_eq: "p = k * 2 ^ 58 + 6 * k + j * M002"
    using mult_M002 by (simp add: p_def t algebra_simps)
  have k_le: "50 * k < 2 ^ 53" using assms t by simp
  have "t * M002 < 2 ^ 53 * 2 ^ 53"
    using assms by (intro mult_strict_mono) (simp_all add: M002_def)
  then have "p < 2 ^ 106" by (simp add: p_def)
  then have bl: "bit_length p \<le> 106" by (rule bit_length_le)
  have lower: "k * 2 ^ 58 \<le> to_double p"
  proof (cases "p < 2 ^ 53")
    case True
    then show ?thesis using p_eq by (simp add: to_double_small)
  next
    case False
    define s where "s = bit_length p - 53"
    have "s \<le> 58" using bl by (simp add: s_def)
    then have "(2::nat) ^ s dvd 2 ^ 58" by (rule le_imp_power_dvd)
    then have "2 ^ s dvd k * 2 ^ 58" by (rule dvd_mult)
    moreover have "k * 2 ^ 58 \<le> p" unfolding p_eq by (rule le_add1 [THEN le_trans, OF le_add1])
    ultimately have "k * 2 ^ 58 \<le> (p div 2 ^ s) * 2 ^ s" by (rule le_trunc)
    also have "\<dots> \<le> to_double p" unfolding s_def by (rule to_double_ge_trunc [OF False])
    finally show ?thesis .
  qed
  have upper: "to_double p < (k + 1) * 2 ^ 58"
  proof (cases "p < 2 ^ 53")
    case True
    then show ?thesis by (simp add: to_double_small)
  next
    case False
    from bl have "(2::nat) ^ (bit_length p - 53) \<le> 2 ^ 53"
      by (intro power_increasing) simp_all
    with to_double_le_half [OF False] have "2 * to_double p \<le> 2 * p + 2 ^ 53" by linarith
    moreover have "j * M002 \<le> 49 * M002" using j by simp
    ultimately show ?thesis using p_eq k_le by (simp add: M002_def)
  qed
  have "to_double p div 2 ^ 58 = k"
    using lower upper by (simp add: div_nat_eqI mult.commute)
  then show ?thesis by (simp add: floor_times_002_def p_def k_def)
qed

subsection \<open>Comparisons survive parseInt\<close>

lemma parseInt_time_exact: "\<bar>t\<bar> < 2 ^ 53 \<Longrightarrow> parseInt_time t = t"
  by (auto simp: parseInt_time_def to_double_small nat_less_iff)

lemma parseInt_time_high: "2 ^ 53 \<le> t \<Longrightarrow> 2 ^ 53 \<le> parseInt_time t"
proof -
  assume t: "2 ^ 53 \<le> t"
  then have "\<not> nat t < 2 ^ 53" by (simp add: nat_less_iff)
  then have "2 ^ 53 \<le> to_double (nat t)" by (rule to_double_large)
  then have "(2::int) ^ 53 \<le> int (to_double (nat t))" by (metis of_nat_le_iff of_nat_numeral of_nat_power)
  with t show ?thesis by (simp add: parseInt_time_def)
qed

lemma parseInt_time_low: "t \<le> - (2 ^ 53) \<Longrightarrow> parseInt_time t \<le> - (2 ^ 53)"
proof -
  assume t: "t \<le> - (2 ^ 53)"
  then have "\<not> nat (- t) < 2 ^ 53" by (simp add: nat_less_iff)
  then have "2 ^ 53 \<le> to_double (nat (- t))" by (rule to_double_large)
  then have "(2::int) ^ 53 \<le> int (to_double (nat (- t)))" by (metis of_nat_le_iff of_nat_numeral of_nat_power)
  with t show ?thesis by (simp add: parseInt_time_def)
qed

lemma parseInt_time_less_iff:
  assumes "\<bar>c\<bar> < 2 ^ 53"
  shows "c < parseInt_time t \<longleftrightarrow> c < t"
proof -
  consider "\<bar>t\<bar> < 2 ^ 53" | "2 ^ 53 \<le> t" | "t \<le> - (2 ^ 53)" by linarith
  then show ?thesis
  proof cases
    case 1
    then show ?thesis by (simp add: parseInt_time_exact)
  next
    case 2
    from parseInt_time_high [OF 2] 2 assms show ?thesis by linarith
  next
    case 3
    from parseInt_time_low [OF 3] 3 assms show ?thesis by linarith
  qed
qed

section \<open>Properties of the derived addresses\<close>

text \<open>
  C10.  The goal index and the currency id enter the seeds as one byte, so two goal
  indices congruent modulo 256 give the same goal account address for every wallet, and
  two currency ids congruent modulo 256 give the same currency-config and savings-mint
  addresses.  The derivation has no failure branch of its own for a large index.
\<close>

theorem pda_index_collides_mod_256:
  assumes "i mod 256 = j mod 256"
  shows "getGoalAccountPDA fpa pid wallet i
           = getGoalAccountPDA fpa pid wallet j
       \<and> getCurrencyConfigPDA fpa pid i = getCurrencyConfigPDA fpa pid j
       \<and> getSavingsMintPDA fpa pid i = getSavingsMintPDA fpa pid j"
  using assms
  by (simp add: getGoalAccountPDA_def getCurrencyConfigPDA_def getSavingsMintPDA_def
      Buffer_from_array1_def)

theorem pda_index_collides_mod_256_witness:
  "(0::int) mod 256 = 256 mod 256
   \<and> getGoalAccountPDA demo_fpa [7] [1, 2, 3] 0 = getGoalAccountPDA demo_fpa [7] [1, 2, 3] 256
   \<and> getCurrencyConfigPDA demo_fpa [7] 0 = getCurrencyConfigPDA demo_fpa [7] 256"
  using pda_index_collides_mod_256 [of 0 256 demo_fpa "[7]" "[1, 2, 3]"] by simp

section \<open>Properties of the authentication middleware\<close>

lemma js_parseInt_Nil: "js_parseInt [] = None"
  by (simp add: js_parseInt_def strip_sign_def strip_radix_def)

lemma parse_Some_not_falsy: "js_parseInt t = Some ts \<Longrightarrow> \<not> falsy (Some t)"
  by (auto simp: falsy_def js_parseInt_Nil)

lemma ownership_check_not_401: "ownership_check req w pk \<noteq> AuthReject 401 e"
  by (simp add: ownership_check_def)

lemma verify_signature_not_timestamp:
  "verify_signature env req \<noteq> AuthReject 401 ''Timestamp expired''
   \<and> verify_signature env req \<noteq> AuthReject 401 ''Invalid timestamp''"
  by (simp add: verify_signature_def ownership_check_not_401 split: option.splits)

lemma verify_full_expired:
  assumes "\<not> falsy (x_wallet_address req)" "\<not> falsy (x_signature req)" "\<not> falsy (x_message req)"
    and "x_timestamp req = Some t" and "js_parseInt t = Some ts"
  shows "verify_full env req =
           (if \<bar>int (Date_now env) - ts\<bar> > fiveMinutes then AuthReject 401 ''Timestamp expired''
            else verify_signature env req)"
  using assms parse_Some_not_falsy [OF assms(5)]
  by (simp add: verify_full_def str_of_def)

lemma verify_full_missing:
  assumes "falsy (x_wallet_address req) \<or> falsy (x_signature req) \<or> falsy (x_message req)"
  shows "verify_full env req = AuthReject 401 ''Missing authentication headers''"
  using assms by (auto simp: verify_full_def)

text \<open>
  C9.  In simplified mode a request with a non-empty, well-formed wallet address header
  and a timestamp header that \<open>parseInt\<close> reads as a number is authenticated as that
  wallet, whatever wallet its path or body names: the ownership comparison is not made,
  and the outcome is never a 403.
\<close>

theorem simple_mode_skips_ownership:
  assumes "SIMPLE_AUTH env = Some ''true''"
    and "x_wallet_address req = Some w" and "w \<noteq> []" and "PublicKey_new env w = Some pk"
    and "x_timestamp req = Some t" and "js_parseInt t = Some ts"
  shows "verifyWalletSignature env req = AuthNext w pk"
proof -
  from assms(5,6) have "\<not> falsy (x_timestamp req)" by (simp add: parse_Some_not_falsy)
  moreover from assms(2,3) have "\<not> falsy (x_wallet_address req)" by (simp add: falsy_def)
  ultimately show ?thesis
    using assms by (simp add: verifyWalletSignature_def verify_simple_def str_of_def)
qed

text \<open>
  C3, amended.  In full mode, when the headers of a request authenticate wallet \<open>w\<close>
  (the same request naming no wallet passes the middleware as \<open>w\<close>) and the body names
  another wallet, the middleware answers 403 and does not call the route, whatever
  \<open>req.params\<close> holds.  Nothing is stated for a wallet named in the path only.
\<close>

theorem full_mode_cross_account_forbidden:
  assumes "SIMPLE_AUTH env \<noteq> Some ''true''"
    and "verifyWalletSignature env (req\<lparr>params_address := None, body_walletAddress := None\<rparr>)
           = AuthNext w pk"
    and "body_walletAddress req = Some b" and "b \<noteq> []" and "b \<noteq> w"
  shows "verifyWalletSignature env req = AuthReject 403 ''Forbidden''"
proof -
  let ?r = "req\<lparr>params_address := None, body_walletAddress := None\<rparr>"
  have full: "verify_full env ?r = AuthNext w pk"
    using assms(1,2) by (simp add: verifyWalletSignature_def)
  then have present: "\<not> falsy (x_wallet_address req)" "\<not> falsy (x_signature req)"
      "\<not> falsy (x_message req)" "\<not> falsy (x_timestamp req)"
    by (auto simp: verify_full_def split: if_splits)
  from full present obtain ts where ts: "js_parseInt (str_of (x_timestamp req)) = Some ts"
      and win: "\<not> \<bar>int (Date_now env) - ts\<bar> > fiveMinutes"
      and sig: "verify_signature env ?r = AuthNext w pk"
    by (auto simp: verify_full_def split: if_splits option.splits)
  from sig obtain sb where pk: "PublicKey_new env (str_of (x_wallet_address req)) = Some pk"
      and sb: "bs58_decode env (str_of (x_signature req)) = Some sb"
      and ok: "nacl_verify env (utf8_encode (str_of (x_message req))) sb pk = Some True"
      and w: "str_of (x_wallet_address req) = w"
    by (auto simp: verify_signature_def ownership_check_def falsy_def
        split: if_splits option.splits)
  have "ownership_check req w pk = AuthReject 403 ''Forbidden''"
    using assms(3-5) by (simp add: ownership_check_def falsy_def str_of_def)
  then have "verify_signature env req = AuthReject 403 ''Forbidden''"
    using pk sb ok w by (simp add: verify_signature_def)
  then show ?thesis
    using assms(1) present ts win by (simp add: verifyWalletSignature_def verify_full_def)
qed

text \<open>
  C4.  In full mode a request whose timestamp is more than five minutes away from the
  clock, in either direction, is answered 401; so is one stamped 5 minutes and 1 second
  ago.  With the other three headers present the answer is "Timestamp expired" exactly
  when the distance exceeds five minutes, and a request stamped 4 minutes 59 seconds ago
  gets past the timestamp check.
\<close>

theorem full_mode_replay_window:
  assumes "SIMPLE_AUTH env \<noteq> Some ''true''"
    and "x_timestamp req = Some t" and "js_parseInt t = Some ts"
  shows "(\<bar>int (Date_now env) - ts\<bar> > 5 * 60 * 1000
            \<longrightarrow> (\<exists>e. verifyWalletSignature env req = AuthReject 401 e))
       \<and> (ts = int (Date_now env) - 301000
            \<longrightarrow> (\<exists>e. verifyWalletSignature env req = AuthReject 401 e))
       \<and> (\<not> falsy (x_wallet_address req) \<and> \<not> falsy (x_signature req) \<and> \<not> falsy (x_message req)
            \<longrightarrow> (verifyWalletSignature env req = AuthReject 401 ''Timestamp expired''
                   \<longleftrightarrow> \<bar>int (Date_now env) - ts\<bar> > 5 * 60 * 1000))
       \<and> (ts = int (Date_now env) - 299000
            \<longrightarrow> verifyWalletSignature env req \<noteq> AuthReject 401 ''Timestamp expired''
              \<and> verifyWalletSignature env req \<noteq> AuthReject 401 ''Invalid timestamp'')"
proof -
  let ?present = "\<not> falsy (x_wallet_address req) \<and> \<not> falsy (x_signature req)
      \<and> \<not> falsy (x_message req)"
  have v: "verifyWalletSignature env req = verify_full env req"
    using assms(1) by (simp add: verifyWalletSignature_def)
  have five: "fiveMinutes = 300000" by (simp add: fiveMinutes_def)
  have missing: "verify_full env req = AuthReject 401 ''Missing authentication headers''"
    if "\<not> ?present"
    using that by (intro verify_full_missing) blast
  have there: "verify_full env req =
      (if \<bar>int (Date_now env) - ts\<bar> > 300000 then AuthReject 401 ''Timestamp expired''
       else verify_signature env req)" if "?present"
    using that verify_full_expired [of req t ts env] assms(2,3) five by simp
  have late: "\<exists>e. verify_full env req = AuthReject 401 e" if "\<bar>int (Date_now env) - ts\<bar> > 300000"
  proof (cases "?present")
    case True
    then show ?thesis using there that by simp
  next
    case False
    then show ?thesis using missing by blast
  qed
  have c1: "\<bar>int (Date_now env) - ts\<bar> > 5 * 60 * 1000
      \<longrightarrow> (\<exists>e. verifyWalletSignature env req = AuthReject 401 e)"
    using late v by simp
  have c2: "ts = int (Date_now env) - 301000
      \<longrightarrow> (\<exists>e. verifyWalletSignature env req = AuthReject 401 e)"
    using late v by simp
  have c3: "?present \<longrightarrow> (verifyWalletSignature env req = AuthReject 401 ''Timestamp expired''
      \<longleftrightarrow> \<bar>int (Date_now env) - ts\<bar> > 5 * 60 * 1000)"
    using there v verify_signature_not_timestamp [of env req] by simp
  have c4: "ts = int (Date_now env) - 299000
      \<longrightarrow> verifyWalletSignature env req \<noteq> AuthReject 401 ''Timestamp expired''
        \<and> verifyWalletSignature env req \<noteq> AuthReject 401 ''Invalid timestamp''"
  proof (cases "?present")
    case True
    then show ?thesis using there v verify_signature_not_timestamp [of env req] by simp
  next
    case False
    then show ?thesis using missing v by simp
  qed
  from c1 c2 c3 c4 show ?thesis by blast
qed

lemma parse_examples:
  "js_parseInt ''1700000000000'' = Some 1700000000000"
  "js_parseInt ''1699999699000'' = Some 1699999699000"
  "js_parseInt ''1699999701000'' = Some 1699999701000"
  by (simp_all add: js_parseInt_def strip_sign_def strip_radix_def is_ws_def radix_digit_def
      digit_val_def to_double_def)

lemma demo_env_simps:
  "SIMPLE_AUTH (demo_auth_env simple now) = simple"
  "Date_now (demo_auth_env simple now) = now"
  "PublicKey_new (demo_auth_env simple now) walletA = Some (map of_char walletA)"
  "bs58_decode (demo_auth_env simple now) s = Some (map of_char s)"
  "nacl_verify (demo_auth_env simple now) m sg k = Some (sg = k)"
  by (simp_all add: demo_auth_env_def demo_PublicKey_def walletA_def)

lemma wallets_differ: "walletB \<noteq> walletA" "walletA \<noteq> []" "walletB \<noteq> []"
  by (simp_all add: walletA_def walletB_def)

text \<open>
  The statement at a request of wallet A that names wallet B in its path and body.
\<close>

theorem simple_mode_skips_ownership_witness:
  "verifyWalletSignature (demo_auth_env (Some ''true'') 1700000000000)
     \<lparr> x_wallet_address = Some walletA, x_signature = None, x_message = None,
       x_timestamp = Some ''1700000000000'', params_address = Some walletB,
       body_walletAddress = Some walletB \<rparr>
   = AuthNext walletA (map of_char walletA)"
  using simple_mode_skips_ownership [of "demo_auth_env (Some ''true'') 1700000000000"
      "\<lparr> x_wallet_address = Some walletA, x_signature = None, x_message = None,
       x_timestamp = Some ''1700000000000'', params_address = Some walletB,
       body_walletAddress = Some walletB \<rparr>" walletA "map of_char walletA"
      "''1700000000000''" 1700000000000]
  by (simp add: demo_env_simps parse_examples wallets_differ)

text \<open>
  C3 as stated fails: in simplified mode a request authenticated as wallet A whose body
  names wallet B passes the middleware.
\<close>

theorem cross_account_counterexample:
  "walletB \<noteq> walletA \<and>
   verifyWalletSignature (demo_auth_env (Some ''true'') 1700000000000)
     \<lparr> x_wallet_address = Some walletA, x_signature = None, x_message = None,
       x_timestamp = Some ''1700000000000'', params_address = None,
       body_walletAddress = Some walletB \<rparr>
   = AuthNext walletA (map of_char walletA)"
  by (simp add: verifyWalletSignature_def verify_simple_def falsy_def str_of_def
      demo_env_simps parse_examples wallets_differ)

theorem full_mode_cross_account_forbidden_witness:
  "verifyWalletSignature (demo_auth_env None 1700000000000)
     \<lparr> x_wallet_address = Some walletA, x_signature = Some walletA, x_message = Some ''login'',
       x_timestamp = Some ''1700000000000'', params_address = None,
       body_walletAddress = Some walletB \<rparr>
   = AuthReject 403 ''Forbidden''"
proof -
  let ?env = "demo_auth_env None 1700000000000"
  let ?req = "\<lparr> x_wallet_address = Some walletA, x_signature = Some walletA,
       x_message = Some ''login'', x_timestamp = Some ''1700000000000'',
       params_address = None, body_walletAddress = Some walletB \<rparr>"
  have 1: "SIMPLE_AUTH ?env \<noteq> Some ''true''" by (simp add: demo_env_simps)
  have 2: "verifyWalletSignature ?env (?req\<lparr>params_address := None, body_walletAddress := None\<rparr>)
      = AuthNext walletA (map of_char walletA)"
    by (simp add: verifyWalletSignature_def verify_full_def verify_signature_def
        ownership_check_def falsy_def str_of_def fiveMinutes_def demo_env_simps parse_examples
        wallets_differ)
  have 3: "body_walletAddress ?req = Some walletB" by simp
  show ?thesis
    by (rule full_mode_cross_account_forbidden [OF 1 2 3 wallets_differ(3) wallets_differ(1)])
qed

theorem full_mode_replay_window_witness:
  "verifyWalletSignature (demo_auth_env None 1700000000000)
     \<lparr> x_wallet_address = Some walletA, x_signature = Some walletA, x_message = Some ''login'',
       x_timestamp = Some ''1699999699000'', params_address = None,
       body_walletAddress = None \<rparr>
     = AuthReject 401 ''Timestamp expired''
   \<and> verifyWalletSignature (demo_auth_env None 1700000000000)
     \<lparr> x_wallet_address = Some walletA, x_signature = Some walletA, x_message = Some ''login'',
       x_timestamp = Some ''1699999701000'', params_address = None,
       body_walletAddress = None \<rparr>
     \<noteq> AuthReject 401 ''Timestamp expired''"
  using full_mode_replay_window [of "demo_auth_env None 1700000000000"
      "\<lparr> x_wallet_address = Some walletA, x_signature = Some walletA, x_message = Some ''login'',
       x_timestamp = Some ''1699999699000'', params_address = None,
       body_walletAddress = None \<rparr>" "''1699999699000''" 1699999699000]
    full_mode_replay_window [of "demo_auth_env None 1700000000000"
      "\<lparr> x_wallet_address = Some walletA, x_signature = Some walletA, x_message = Some ''login'',
       x_timestamp = Some ''1699999701000'', params_address = None,
       body_walletAddress = None \<rparr>" "''1699999701000''" 1699999701000]
  by (simp add: demo_env_simps parse_examples wallets_differ falsy_def)

section \<open>Properties of the chain state reader\<close>

lemma and_then_Inr_iff: "and_then m f = Inr r \<longleftrightarrow> (\<exists>x. m = Inr x \<and> f x = Inr r)"
  by (cases m) (simp_all add: and_then_def)

lemma and_then_Inr [simp]: "and_then (Inr x) f = f x"
  by (simp add: and_then_def)

lemma and_then_Inl [simp]: "and_then (Inl e) f = Inl e"
  by (simp add: and_then_def)

lemma null_if_missing_throw:
  "account_missing msg \<Longrightarrow> null_if_missing (from_fetch (FetchThrows msg)) = Inr None"
  by (simp add: null_if_missing_def from_fetch_def)

lemma new_PublicKey_Some: "PublicKey_new env w = Some pk \<Longrightarrow> new_PublicKey env w = Inr pk"
  by (simp add: new_PublicKey_def)

lemma missing_message: "account_missing ''Account does not exist or has no data''"
  by (simp add: account_missing_def)

text \<open>
  C8, amended.  When the fetch of an account throws the error of a missing account,
  the readers of UserAccount, GoalAccount, FaucetConfig and FaucetAccount return
  \<open>null\<close>; the readers of GlobalState and CurrencyConfig rethrow the error.
\<close>

theorem missing_account_reads:
  assumes "account_missing msg"
  shows "(PublicKey_new env w = Some pk
          \<and> fetch_userAccount env
              (getUserAccountPDA (findProgramAddressSync env) (programId env) pk) = FetchThrows msg
          \<longrightarrow> getUserAccount env w = Inr None)
       \<and> (PublicKey_new env w = Some pk
          \<and> fetch_goalAccount env
              (getGoalAccountPDA (findProgramAddressSync env) (programId env) pk i) = FetchThrows msg
          \<longrightarrow> getGoalAccount env w i = Inr None)
       \<and> (fetch_faucetConfig env
              (getFaucetConfigPDA (findProgramAddressSync env) (programId env)) = FetchThrows msg
          \<longrightarrow> getFaucetConfig env = Inr None)
       \<and> (PublicKey_new env w = Some pk
          \<and> fetch_userFaucetAccount env
              (getUserFaucetAccountPDA (findProgramAddressSync env) (programId env) pk) = FetchThrows msg
          \<longrightarrow> getUserFaucetAccount env w = Inr None)
       \<and> (fetch_globalState env
              (getGlobalStatePDA (findProgramAddressSync env) (programId env)) = FetchThrows msg
          \<longrightarrow> getGlobalState env = Inl msg)
       \<and> (fetch_currencyConfig env
              (getCurrencyConfigPDA (findProgramAddressSync env) (programId env) c) = FetchThrows msg
          \<longrightarrow> getCurrencyConfig env c = Inl msg)"
proof -
  have n: "null_if_missing (from_fetch (FetchThrows msg)) = Inr None" for dummy :: "'a itself"
    using assms by (rule null_if_missing_throw)
  have 1: "PublicKey_new env w = Some pk
          \<and> fetch_userAccount env
              (getUserAccountPDA (findProgramAddressSync env) (programId env) pk) = FetchThrows msg
          \<longrightarrow> getUserAccount env w = Inr None"
    using assms by (simp add: getUserAccount_def new_PublicKey_Some null_if_missing_throw)
  have 2: "PublicKey_new env w = Some pk
          \<and> fetch_goalAccount env
              (getGoalAccountPDA (findProgramAddressSync env) (programId env) pk i) = FetchThrows msg
          \<longrightarrow> getGoalAccount env w i = Inr None"
    using assms by (simp add: getGoalAccount_def new_PublicKey_Some null_if_missing_throw)
  have 3: "fetch_faucetConfig env
              (getFaucetConfigPDA (findProgramAddressSync env) (programId env)) = FetchThrows msg
          \<longrightarrow> getFaucetConfig env = Inr None"
    using assms by (simp add: getFaucetConfig_def null_if_missing_throw)
  have 4: "PublicKey_new env w = Some pk
          \<and> fetch_userFaucetAccount env
              (getUserFaucetAccountPDA (findProgramAddressSync env) (programId env) pk) = FetchThrows msg
          \<longrightarrow> getUserFaucetAccount env w = Inr None"
    using assms by (simp add: getUserFaucetAccount_def new_PublicKey_Some null_if_missing_throw)
  have 5: "fetch_globalState env
              (getGlobalStatePDA (findProgramAddressSync env) (programId env)) = FetchThrows msg
          \<longrightarrow> getGlobalState env = Inl msg"
    by (simp add: getGlobalState_def from_fetch_def)
  have 6: "fetch_currencyConfig env
              (getCurrencyConfigPDA (findProgramAddressSync env) (programId env) c) = FetchThrows msg
          \<longrightarrow> getCurrencyConfig env c = Inl msg"
    by (simp add: getCurrencyConfig_def from_fetch_def)
  from 1 2 3 4 5 6 show ?thesis by blast
qed

lemma demo_env_fields:
  "Date_now (demo_env now user goal faucet global) = now"
  "PublicKey_new (demo_env now user goal faucet global) = demo_PublicKey"
  "programId (demo_env now user goal faucet global) = [7]"
  "findProgramAddressSync (demo_env now user goal faucet global) = demo_fpa"
  "getAssociatedTokenAddressSync (demo_env now user goal faucet global) m ow off = Some (m @ ow)"
  "fetch_globalState (demo_env now user goal faucet global) a = global"
  "fetch_userAccount (demo_env now user goal faucet global) a = user"
  "fetch_currencyConfig (demo_env now user goal faucet global) a = Fetched
          \<lparr> cc_currencyId = 0, cc_baseTokenMint = mintU, cc_savingsTokenMint = mintU,
            cc_liteApy = 500, cc_proLowRiskApy = 600, cc_proMediumRiskApy = 800,
            cc_proHighRiskApy = 1200, cc_totalDeposited = 0, cc_totalGoals = 0 \<rparr>"
  "fetch_goalAccount (demo_env now user goal faucet global) a = goal"
  "fetch_faucetConfig (demo_env now user goal faucet global) a = missing"
  "fetch_userFaucetAccount (demo_env now user goal faucet global) a = faucet"
  "getLatestBlockhash (demo_env now user goal faucet global) = Some ''blockhash''"
  "TOKEN_PROGRAM_ID (demo_env now user goal faucet global) = [6]"
  "SYSVAR_RENT_PUBKEY (demo_env now user goal faucet global) = [5]"
  "FAUCET_ENABLED (demo_env now user goal faucet global) = Some ''true''"
  by (simp_all add: demo_env_def missing_def)

lemma empty_ledger_fields:
  "PublicKey_new empty_ledger_env = demo_PublicKey"
  "fetch_globalState empty_ledger_env a = missing"
  "fetch_userAccount empty_ledger_env a = missing"
  "fetch_currencyConfig empty_ledger_env a = missing"
  "fetch_goalAccount empty_ledger_env a = missing"
  "fetch_faucetConfig empty_ledger_env a = missing"
  "fetch_userFaucetAccount empty_ledger_env a = missing"
  by (simp_all add: empty_ledger_env_def demo_env_fields)

lemma demo_keys:
  "demo_PublicKey walletA = Some (map of_char walletA)"
  "demo_PublicKey walletB = Some (map of_char walletB)"
  "demo_PublicKey mintU = Some (map of_char mintU)"
  by (simp_all add: demo_PublicKey_def walletA_def walletB_def mintU_def)

theorem missing_account_reads_witness:
  "account_missing ''Account does not exist or has no data''
   \<and> getUserAccount empty_ledger_env walletA = Inr None
   \<and> getGoalAccount empty_ledger_env walletA 0 = Inr None
   \<and> getFaucetConfig empty_ledger_env = Inr None
   \<and> getUserFaucetAccount empty_ledger_env walletA = Inr None
   \<and> getGlobalState empty_ledger_env = Inl ''Account does not exist or has no data''
   \<and> getCurrencyConfig empty_ledger_env 0 = Inl ''Account does not exist or has no data''"
  using missing_account_reads [OF missing_message,
      of empty_ledger_env walletA "map of_char walletA" 0 0]
  by (simp add: missing_message empty_ledger_fields demo_keys missing_def)

text \<open>
  C8 as stated fails: on a ledger without a GlobalState account the reader throws.
\<close>

theorem global_state_missing_counterexample:
  "account_missing ''Account does not exist or has no data''
   \<and> fetch_globalState empty_ledger_env
        (getGlobalStatePDA (findProgramAddressSync empty_ledger_env) (programId empty_ledger_env))
       = FetchThrows ''Account does not exist or has no data''
   \<and> getGlobalState empty_ledger_env = Inl ''Account does not exist or has no data''"
  by (simp add: missing_message getGlobalState_def from_fetch_def empty_ledger_fields missing_def)

section \<open>Properties of the withdrawal builders\<close>

lemma finish_tx_instruction: "finish_tx env ix accounts payer = Inr tx \<Longrightarrow> tx_instruction tx = ix"
  by (auto simp: finish_tx_def split: option.splits)

lemma buildWithdrawEarlyTx_result:
  assumes "buildWithdrawEarlyTx env w gi = Inr r"
  shows "\<exists>goal tx. getGoalAccount env w gi = Inr (Some goal)
    \<and> tx_instruction tx = WithdrawEarlyIx
    \<and> r = \<lparr> wr_transaction = tx, wr_principal = ga_currentAmount goal,
               wr_interest = ga_accruedInterest goal, wr_totalAmount = None,
               wr_totalBeforePenalty =
                 Some (num_add (parseInt_dec (ga_currentAmount goal))
                               (parseInt_dec (ga_accruedInterest goal))),
               wr_penalty =
                 Some (floor_times_002 (num_add (parseInt_dec (ga_currentAmount goal))
                               (parseInt_dec (ga_accruedInterest goal)))),
               wr_totalAfterPenalty =
                 Some (num_sub (num_add (parseInt_dec (ga_currentAmount goal))
                                        (parseInt_dec (ga_accruedInterest goal)))
                         (floor_times_002 (num_add (parseInt_dec (ga_currentAmount goal))
                               (parseInt_dec (ga_accruedInterest goal))))) \<rparr>"
  using assms unfolding buildWithdrawEarlyTx_def Let_def
  by (auto simp: and_then_Inr_iff split: option.splits dest!: finish_tx_instruction)

lemma buildWithdrawCompletedTx_result:
  assumes "buildWithdrawCompletedTx env w gi = Inr r"
  shows "\<exists>goal tx. getGoalAccount env w gi = Inr (Some goal)
    \<and> tx_instruction tx = WithdrawCompletedIx
    \<and> r = \<lparr> wr_transaction = tx, wr_principal = ga_currentAmount goal,
               wr_interest = ga_accruedInterest goal,
               wr_totalAmount =
                 Some (num_add (parseInt_dec (ga_currentAmount goal))
                               (parseInt_dec (ga_accruedInterest goal))),
               wr_totalBeforePenalty = None, wr_penalty = None,
               wr_totalAfterPenalty = None \<rparr>"
  using assms unfolding buildWithdrawCompletedTx_def Let_def
  by (auto simp: and_then_Inr_iff split: option.splits dest!: finish_tx_instruction)

lemma safe_total:
  assumes "a + b < 2 ^ 53"
  shows "num_add (parseInt_dec a) (parseInt_dec b) = a + b"
proof -
  from assms have "a < 2 ^ 53" "b < 2 ^ 53" by simp_all
  then show ?thesis using assms by (simp add: num_add_def parseInt_dec_def to_double_small)
qed

lemma safe_after:
  assumes "t < 2 ^ 53"
  shows "num_sub t (t div 50) = t - t div 50"
proof -
  have "t - t div 50 \<le> t" by simp
  from this assms have "t - t div 50 < 2 ^ 53" by (rule le_less_trans)
  then show ?thesis by (simp add: num_sub_def to_double_small)
qed

text \<open>
  C2, amended.  For an early withdrawal of a goal whose total value
  \<open>currentAmount + accruedInterest\<close> is below \<open>2 ^ 53\<close>, the reported total is that
  value, the reported penalty is \<open>floor (total / 50)\<close>, that is 2 per cent rounded
  down, and the amount delivered is the total minus the penalty; a total of 10000 gives
  200 and 9800, a total of 1 gives 0 and 1.
\<close>

theorem early_withdrawal_penalty:
  assumes "buildWithdrawEarlyTx env w gi = Inr r"
    and "getGoalAccount env w gi = Inr (Some goal)"
    and "ga_currentAmount goal + ga_accruedInterest goal < 2 ^ 53"
  shows "wr_totalBeforePenalty r = Some (ga_currentAmount goal + ga_accruedInterest goal)
       \<and> wr_penalty r = Some ((ga_currentAmount goal + ga_accruedInterest goal) div 50)
       \<and> wr_totalAfterPenalty r =
           Some ((ga_currentAmount goal + ga_accruedInterest goal)
                 - (ga_currentAmount goal + ga_accruedInterest goal) div 50)
       \<and> (ga_currentAmount goal + ga_accruedInterest goal = 10000
            \<longrightarrow> wr_penalty r = Some 200 \<and> wr_totalAfterPenalty r = Some 9800)
       \<and> (ga_currentAmount goal + ga_accruedInterest goal = 1
            \<longrightarrow> wr_penalty r = Some 0 \<and> wr_totalAfterPenalty r = Some 1)"
proof -
  define t where "t = ga_currentAmount goal + ga_accruedInterest goal"
  from assms(1) obtain goal' tx where g: "getGoalAccount env w gi = Inr (Some goal')"
    and r: "r = \<lparr> wr_transaction = tx, wr_principal = ga_currentAmount goal',
               wr_interest = ga_accruedInterest goal', wr_totalAmount = None,
               wr_totalBeforePenalty =
                 Some (num_add (parseInt_dec (ga_currentAmount goal'))
                               (parseInt_dec (ga_accruedInterest goal'))),
               wr_penalty =
                 Some (floor_times_002 (num_add (parseInt_dec (ga_currentAmount goal'))
                               (parseInt_dec (ga_accruedInterest goal')))),
               wr_totalAfterPenalty =
                 Some (num_sub (num_add (parseInt_dec (ga_currentAmount goal'))
                                        (parseInt_dec (ga_accruedInterest goal')))
                         (floor_times_002 (num_add (parseInt_dec (ga_currentAmount goal'))
                               (parseInt_dec (ga_accruedInterest goal'))))) \<rparr>"
    using buildWithdrawEarlyTx_result [OF assms(1)] by blast
  from g assms(2) have same: "goal' = goal" by simp
  have t53: "t < 2 ^ 53" using assms(3) by (simp add: t_def)
  have total: "num_add (parseInt_dec (ga_currentAmount goal))
      (parseInt_dec (ga_accruedInterest goal)) = t"
    unfolding t_def using assms(3) by (rule safe_total)
  have pen: "floor_times_002 t = t div 50" using t53 by (rule floor_times_002_exact)
  have aft: "num_sub t (t div 50) = t - t div 50" using t53 by (rule safe_after)
  have 1: "wr_totalBeforePenalty r = Some t" by (simp add: r same total)
  have 2: "wr_penalty r = Some (t div 50)" by (simp add: r same total pen)
  have 3: "wr_totalAfterPenalty r = Some (t - t div 50)" by (simp add: r same total pen aft)
  have 4: "t = 10000 \<longrightarrow> wr_penalty r = Some 200 \<and> wr_totalAfterPenalty r = Some 9800"
    using 2 3 by simp
  have 5: "t = 1 \<longrightarrow> wr_penalty r = Some 0 \<and> wr_totalAfterPenalty r = Some 1"
    using 2 3 by simp
  from 1 2 3 4 5 show ?thesis unfolding t_def by blast
qed

lemma demo_getGoalAccount:
  "getGoalAccount (demo_env now user (Fetched g) faucet global) walletA i = Inr (Some g)"
  by (simp add: getGoalAccount_def new_PublicKey_def demo_env_fields demo_keys from_fetch_def
      null_if_missing_def)

lemma demo_getCurrencyConfig:
  "getCurrencyConfig (demo_env now user goal faucet global) c = Inr
          \<lparr> cc_currencyId = 0, cc_baseTokenMint = mintU, cc_savingsTokenMint = mintU,
            cc_liteApy = 500, cc_proLowRiskApy = 600, cc_proMediumRiskApy = 800,
            cc_proHighRiskApy = 1200, cc_totalDeposited = 0, cc_totalGoals = 0 \<rparr>"
  by (simp add: getCurrencyConfig_def demo_env_fields from_fetch_def)

lemma demo_getGlobalState:
  "getGlobalState (demo_env now user goal faucet demo_global) = Inr
      \<lparr> gs_authority = walletB, gs_treasury = walletB,
      gs_rewardPool = walletB, gs_earlyWithdrawalPenalty = 200, gs_totalCurrencies = 2 \<rparr>"
  by (simp add: getGlobalState_def demo_env_fields from_fetch_def demo_global_def)

lemma demo_new_PublicKey:
  "new_PublicKey (demo_env now user goal faucet global) walletA = Inr (map of_char walletA)"
  "new_PublicKey (demo_env now user goal faucet global) walletB = Inr (map of_char walletB)"
  "new_PublicKey (demo_env now user goal faucet global) mintU = Inr (map of_char mintU)"
  by (simp_all add: new_PublicKey_def demo_env_fields demo_keys)

lemma demo_token_address:
  "token_address (demo_env now user goal faucet global) m ow off = Inr (m @ ow)"
  by (simp add: token_address_def demo_env_fields)

lemma demo_finish_tx:
  "finish_tx (demo_env now user goal faucet global) ix accounts payer =
     Inr \<lparr> tx_instruction = ix, tx_accounts = accounts,
           tx_recentBlockhash = ''blockhash'', tx_feePayer = payer \<rparr>"
  by (simp add: finish_tx_def demo_env_fields)

lemma demo_build_early:
  "\<exists>tx. tx_instruction tx = WithdrawEarlyIx \<and>
     buildWithdrawEarlyTx (demo_env now user (Fetched g) faucet demo_global) walletA i =
       Inr \<lparr> wr_transaction = tx, wr_principal = ga_currentAmount g,
             wr_interest = ga_accruedInterest g, wr_totalAmount = None,
             wr_totalBeforePenalty =
               Some (num_add (parseInt_dec (ga_currentAmount g))
                             (parseInt_dec (ga_accruedInterest g))),
             wr_penalty =
               Some (floor_times_002 (num_add (parseInt_dec (ga_currentAmount g))
                             (parseInt_dec (ga_accruedInterest g)))),
             wr_totalAfterPenalty =
               Some (num_sub (num_add (parseInt_dec (ga_currentAmount g))
                                      (parseInt_dec (ga_accruedInterest g)))
                       (floor_times_002 (num_add (parseInt_dec (ga_currentAmount g))
                             (parseInt_dec (ga_accruedInterest g))))) \<rparr>"
  by (simp add: buildWithdrawEarlyTx_def demo_getGoalAccount demo_getCurrencyConfig
      demo_getGlobalState demo_new_PublicKey demo_token_address demo_finish_tx Let_def)

lemma demo_build_completed:
  "\<exists>tx. tx_instruction tx = WithdrawCompletedIx \<and>
     buildWithdrawCompletedTx (demo_env now user (Fetched g) faucet demo_global) walletA i =
       Inr \<lparr> wr_transaction = tx, wr_principal = ga_currentAmount g,
             wr_interest = ga_accruedInterest g,
             wr_totalAmount =
               Some (num_add (parseInt_dec (ga_currentAmount g))
                             (parseInt_dec (ga_accruedInterest g))),
             wr_totalBeforePenalty = None, wr_penalty = None,
             wr_totalAfterPenalty = None \<rparr>"
  by (simp add: buildWithdrawCompletedTx_def demo_getGoalAccount demo_getCurrencyConfig
      demo_getGlobalState demo_new_PublicKey demo_token_address demo_finish_tx Let_def)

lemma demo_goal_fields:
  "ga_currentAmount (demo_goal c a d) = c"
  "ga_accruedInterest (demo_goal c a d) = a"
  "ga_deadline (demo_goal c a d) = d"
  "ga_status (demo_goal c a d) = Active"
  "ga_currencyId (demo_goal c a d) = 0"
  by (simp_all add: demo_goal_def)

lemma big_total:
  "num_add (parseInt_dec 9007199254740999) (parseInt_dec 0) = 9007199254741000"
  by (simp add: num_add_def parseInt_dec_def to_double_def bit_length.simps)

lemma big_penalty: "floor_times_002 9007199254741000 = 180143985094820"
  by (simp add: floor_times_002_def M002_def to_double_def bit_length.simps)

theorem early_withdrawal_penalty_witness:
  "(case buildWithdrawEarlyTx
           (demo_env 1700000000000 demo_user (Fetched (demo_goal 9000 1000 1800000000))
              missing demo_global) walletA 0 of
      Inl e \<Rightarrow> False
    | Inr r \<Rightarrow> wr_totalBeforePenalty r = Some 10000 \<and> wr_penalty r = Some 200
               \<and> wr_totalAfterPenalty r = Some 9800)"
proof -
  let ?env = "demo_env 1700000000000 demo_user (Fetched (demo_goal 9000 1000 1800000000))
      missing demo_global"
  from demo_build_early obtain r where r: "buildWithdrawEarlyTx ?env walletA 0 = Inr r"
    by blast
  have g: "getGoalAccount ?env walletA 0 = Inr (Some (demo_goal 9000 1000 1800000000))"
    by (rule demo_getGoalAccount)
  have b: "ga_currentAmount (demo_goal 9000 1000 1800000000)
      + ga_accruedInterest (demo_goal 9000 1000 1800000000) < 2 ^ 53"
    by (simp add: demo_goal_fields)
  from early_withdrawal_penalty [OF r g b] show ?thesis by (simp add: r demo_goal_fields)
qed

text \<open>
  C2 as stated fails above \<open>2 ^ 53\<close>: with a current amount of 9007199254740999 and
  no interest the reported total is 9007199254741000, the reported penalty is
  180143985094820 where 2 per cent rounded down is 180143985094819, and the amount
  delivered is not the fetched total minus the penalty.
\<close>

theorem early_withdrawal_penalty_counterexample:
  "(case buildWithdrawEarlyTx
           (demo_env 1700000000000 demo_user
              (Fetched (demo_goal 9007199254740999 0 1800000000)) missing demo_global)
           walletA 0 of
      Inl e \<Rightarrow> False
    | Inr r \<Rightarrow> wr_principal r + wr_interest r = 9007199254740999
               \<and> wr_totalBeforePenalty r = Some 9007199254741000
               \<and> wr_penalty r = Some 180143985094820
               \<and> wr_totalAfterPenalty r = Some 8827055269646180)
   \<and> (9007199254740999 :: nat) div 50 = 180143985094819"
proof -
  let ?env = "demo_env 1700000000000 demo_user
      (Fetched (demo_goal 9007199254740999 0 1800000000)) missing demo_global"
  have after: "num_sub 9007199254741000 180143985094820 = 8827055269646180"
    by (simp add: num_sub_def to_double_def)
  from demo_build_early [of 1700000000000 demo_user "demo_goal 9007199254740999 0 1800000000"
      missing 0]
  show ?thesis by (auto simp: demo_goal_fields big_total big_penalty after)
qed

section \<open>Properties of the withdrawal route\<close>

lemma now_seconds_bound: "Date_now env < 2 ^ 53 \<Longrightarrow> \<bar>now_seconds env\<bar> < 2 ^ 53"
proof -
  assume a: "Date_now env < 2 ^ 53"
  have "Date_now env div 1000 \<le> Date_now env" by simp
  from this a have "Date_now env div 1000 < 2 ^ 53" by (rule le_less_trans)
  then have "int (Date_now env div 1000) < 2 ^ 53"
    by (metis of_nat_less_iff of_nat_numeral of_nat_power)
  then show ?thesis by (simp add: now_seconds_def)
qed

lemma isEarly_exact:
  "Date_now env < 2 ^ 53 \<Longrightarrow> parseInt_time d > now_seconds env \<longleftrightarrow> d > now_seconds env"
  by (rule parseInt_time_less_iff) (rule now_seconds_bound)

lemma withdraw_respond_early:
  assumes "withdraw_respond b goal (buildWithdrawEarlyTx env w gi) = Ok200 resp"
  shows "tx_instruction (wd_transaction resp) = WithdrawEarlyIx
       \<and> wd_withdrawalType resp = (if b then ''early'' else ''completed'')"
proof -
  from assms obtain r where r: "buildWithdrawEarlyTx env w gi = Inr r"
    by (auto simp: withdraw_respond_def internal_error_def split: sum.splits)
  from buildWithdrawEarlyTx_result [OF r]
  have "tx_instruction (wr_transaction r) = WithdrawEarlyIx" by auto
  with assms r show ?thesis by (auto simp: withdraw_respond_def)
qed

lemma withdraw_respond_completed:
  assumes "withdraw_respond b goal (buildWithdrawCompletedTx env w gi) = Ok200 resp"
  shows "tx_instruction (wd_transaction resp) = WithdrawCompletedIx
       \<and> wd_withdrawalType resp = (if b then ''early'' else ''completed'')
       \<and> wd_penalty resp = 0"
proof -
  from assms obtain r where r: "buildWithdrawCompletedTx env w gi = Inr r"
    by (auto simp: withdraw_respond_def internal_error_def split: sum.splits)
  from buildWithdrawCompletedTx_result [OF r]
  have "tx_instruction (wr_transaction r) = WithdrawCompletedIx \<and> wr_penalty r = None" by auto
  with assms r show ?thesis by (auto simp: withdraw_respond_def)
qed

lemma withdraw_route_unfold:
  assumes "\<not> falsy (wb_walletAddress body)" and "wb_goalIndex body = Some gi"
    and "getGoalAccount env (str_of (wb_walletAddress body)) gi = Inr (Some goal)"
    and "ga_currentAmount goal \<noteq> 0"
  shows "withdraw_route env body =
     (if parseInt_time (ga_deadline goal) > now_seconds env \<or> wb_early body
      then withdraw_respond True goal
             (buildWithdrawEarlyTx env (str_of (wb_walletAddress body)) gi)
      else withdraw_respond False goal
             (buildWithdrawCompletedTx env (str_of (wb_walletAddress body)) gi))"
  using assms
  by (simp add: withdraw_route_def Let_def parseInt_dec_def to_double_eq_0_iff)

text \<open>
  C1, amended.  For a withdrawal request on an existing goal with a non-zero current
  amount, at any value of the clock, the route calls the early builder exactly when the
  deadline is after the current time or the request sets the \<open>early\<close> flag, and the
  completed builder otherwise.  So the transaction of a successful response is
  WithdrawEarly exactly when the deadline is after the current time or the flag is set,
  and WithdrawCompleted, with penalty 0, exactly when the deadline is not after the
  current time and the flag is not set; a goal whose deadline was one second ago is built
  as a completed withdrawal when the flag is not set.
\<close>

theorem withdraw_variant:
  assumes "\<not> falsy (wb_walletAddress body)" and "wb_goalIndex body = Some gi"
    and "getGoalAccount env (str_of (wb_walletAddress body)) gi = Inr (Some goal)"
    and "ga_currentAmount goal \<noteq> 0"
    and "Date_now env < 2 ^ 53"
  shows "withdraw_route env body =
           (if ga_deadline goal > now_seconds env \<or> wb_early body
            then withdraw_respond True goal
                   (buildWithdrawEarlyTx env (str_of (wb_walletAddress body)) gi)
            else withdraw_respond False goal
                   (buildWithdrawCompletedTx env (str_of (wb_walletAddress body)) gi))
       \<and> (withdraw_route env body = Ok200 resp \<longrightarrow>
            (tx_instruction (wd_transaction resp) = WithdrawEarlyIx
               \<longleftrightarrow> ga_deadline goal > now_seconds env \<or> wb_early body)
          \<and> (tx_instruction (wd_transaction resp) = WithdrawCompletedIx
               \<longleftrightarrow> ga_deadline goal \<le> now_seconds env \<and> \<not> wb_early body)
          \<and> (wd_withdrawalType resp = ''early''
               \<longleftrightarrow> ga_deadline goal > now_seconds env \<or> wb_early body)
          \<and> (ga_deadline goal \<le> now_seconds env \<and> \<not> wb_early body \<longrightarrow> wd_penalty resp = 0)
          \<and> (ga_deadline goal = now_seconds env - 1 \<and> \<not> wb_early body
               \<longrightarrow> tx_instruction (wd_transaction resp) = WithdrawCompletedIx))"
proof -
  let ?early = "ga_deadline goal > now_seconds env \<or> wb_early body"
  let ?w = "str_of (wb_walletAddress body)"
  have ex: "parseInt_time (ga_deadline goal) > now_seconds env
      \<longleftrightarrow> ga_deadline goal > now_seconds env"
    using assms(5) by (rule isEarly_exact)
  have br: "withdraw_route env body =
      (if ?early then withdraw_respond True goal (buildWithdrawEarlyTx env ?w gi)
       else withdraw_respond False goal (buildWithdrawCompletedTx env ?w gi))"
    using withdraw_route_unfold [OF assms(1-4)] unfolding ex .
  have resp: "(tx_instruction (wd_transaction resp) = WithdrawEarlyIx \<longleftrightarrow> ?early)
      \<and> (tx_instruction (wd_transaction resp) = WithdrawCompletedIx
           \<longleftrightarrow> ga_deadline goal \<le> now_seconds env \<and> \<not> wb_early body)
      \<and> (wd_withdrawalType resp = ''early'' \<longleftrightarrow> ?early)
      \<and> (ga_deadline goal \<le> now_seconds env \<and> \<not> wb_early body \<longrightarrow> wd_penalty resp = 0)
      \<and> (ga_deadline goal = now_seconds env - 1 \<and> \<not> wb_early body
           \<longrightarrow> tx_instruction (wd_transaction resp) = WithdrawCompletedIx)"
    if ok: "withdraw_route env body = Ok200 resp"
  proof (cases ?early)
    case True
    with br ok have "withdraw_respond True goal (buildWithdrawEarlyTx env ?w gi) = Ok200 resp"
      by simp
    from withdraw_respond_early [OF this] True show ?thesis by auto
  next
    case False
    with br ok
    have "withdraw_respond False goal (buildWithdrawCompletedTx env ?w gi) = Ok200 resp"
      by simp
    from withdraw_respond_completed [OF this] False show ?thesis by auto
  qed
  from br resp show ?thesis by blast
qed

lemma mint_not_falsy: "\<not> falsy (Some mintU)" "\<not> falsy (Some walletA)"
  by (simp_all add: falsy_def mintU_def walletA_def)

lemma demo_now: "now_seconds (demo_env 1700000000000 user goal faucet global) = 1700000000"
  by (simp add: now_seconds_def demo_env_fields)

lemma small_parse:
  "parseInt_dec 10000 = 10000" "parseInt_dec 0 = 0"
  "parseInt_time 1699999999 = 1699999999" "parseInt_time 1800000000 = 1800000000"
  "parseInt_time 1699996340 = 1699996340" "parseInt_time 1699998200 = 1699998200"
  by (simp_all add: parseInt_dec_def parseInt_time_def to_double_def)

lemma small_amounts:
  "num_add 10000 0 = 10000" "floor_times_002 10000 = 200" "num_sub 10000 200 = 9800"
  by (simp_all add: num_add_def num_sub_def floor_times_002_def M002_def to_double_def
      bit_length.simps)

lemma demo_withdraw_completed:
  "\<exists>resp. withdraw_route
       (demo_env 1700000000000 demo_user (Fetched (demo_goal 10000 0 1699999999)) missing
          demo_global)
       \<lparr> wb_walletAddress = Some walletA, wb_goalIndex = Some 0, wb_early = False \<rparr>
     = Ok200 resp"
  using demo_build_completed [of 1700000000000 demo_user "demo_goal 10000 0 1699999999" missing 0]
  by (auto simp: withdraw_route_def withdraw_respond_def falsy_def str_of_def wallets_differ
      demo_getGoalAccount demo_goal_fields small_parse demo_now Let_def)

theorem withdraw_variant_witness:
  "(case withdraw_route
       (demo_env 1700000000000 demo_user (Fetched (demo_goal 10000 0 1699999999)) missing
          demo_global)
       \<lparr> wb_walletAddress = Some walletA, wb_goalIndex = Some 0, wb_early = False \<rparr> of
      Reject c e \<Rightarrow> False
    | Ok200 resp \<Rightarrow> tx_instruction (wd_transaction resp) = WithdrawCompletedIx
                    \<and> wd_penalty resp = 0)"
proof -
  let ?env = "demo_env 1700000000000 demo_user (Fetched (demo_goal 10000 0 1699999999)) missing
      demo_global"
  let ?body = "\<lparr> wb_walletAddress = Some walletA, wb_goalIndex = Some 0, wb_early = False \<rparr>"
  from demo_withdraw_completed obtain resp where r: "withdraw_route ?env ?body = Ok200 resp"
    by blast
  have w: "\<not> falsy (wb_walletAddress ?body)" by (simp add: mint_not_falsy)
  have gi: "wb_goalIndex ?body = Some 0" by simp
  have g: "getGoalAccount ?env (str_of (wb_walletAddress ?body)) 0
      = Inr (Some (demo_goal 10000 0 1699999999))"
    by (simp add: str_of_def demo_getGoalAccount)
  have nz: "ga_currentAmount (demo_goal 10000 0 1699999999) \<noteq> 0"
    by (simp add: demo_goal_fields)
  have n: "Date_now ?env < 2 ^ 53" by (simp add: demo_env_fields)
  from withdraw_variant [OF w gi g nz n, THEN conjunct2, THEN mp, OF r]
  have "tx_instruction (wd_transaction resp) = WithdrawCompletedIx \<and> wd_penalty resp = 0"
    by (simp add: demo_goal_fields demo_now)
  then show ?thesis by (simp add: r)
qed

text \<open>
  C1 as stated fails: with the \<open>early\<close> flag set, a goal whose deadline was one second
  ago is built as an early withdrawal, with the penalty.
\<close>

theorem withdraw_early_flag_counterexample:
  "(case withdraw_route
       (demo_env 1700000000000 demo_user (Fetched (demo_goal 10000 0 1699999999)) missing
          demo_global)
       \<lparr> wb_walletAddress = Some walletA, wb_goalIndex = Some 0, wb_early = True \<rparr> of
      Reject c e \<Rightarrow> False
    | Ok200 resp \<Rightarrow> tx_instruction (wd_transaction resp) = WithdrawEarlyIx
                    \<and> wd_withdrawalType resp = ''early''
                    \<and> wd_penalty resp = 200 \<and> wd_finalAmount resp = Some 9800)
   \<and> ga_deadline (demo_goal 10000 0 1699999999)
       = now_seconds (demo_env 1700000000000 demo_user
           (Fetched (demo_goal 10000 0 1699999999)) missing demo_global) - 1"
  using demo_build_early [of 1700000000000 demo_user "demo_goal 10000 0 1699999999" missing 0]
  by (auto simp: withdraw_route_def withdraw_respond_def falsy_def str_of_def wallets_differ
      demo_getGoalAccount demo_goal_fields small_parse small_amounts demo_now Let_def
      or_else_def)

section \<open>Properties of goal creation\<close>

lemma riskTierEnum_of_pro_missing:
  "falsy rt \<Longrightarrow> riskTierEnum_of ''pro'' rt = Inl ''Risk tier is required for Pro mode''"
  by (simp add: riskTierEnum_of_def)

lemma riskTierEnum_of_cases:
  "riskTierEnum_of mode rt = Inr tier \<Longrightarrow> (tier \<noteq> None \<longleftrightarrow> mode = ''pro'')"
  by (auto simp: riskTierEnum_of_def split: if_splits)

lemma buildCreateGoalTx_pro_without_tier:
  assumes "falsy rt"
  shows "\<exists>e. buildCreateGoalTx env w n t ''pro'' rt c d = Inl e"
proof (cases "buildCreateGoalTx env w n t ''pro'' rt c d")
  case (Inl e)
  then show ?thesis by blast
next
  case (Inr r)
  then have "\<exists>tier. riskTierEnum_of ''pro'' rt = Inr tier"
    unfolding buildCreateGoalTx_def Let_def
    by (auto simp: and_then_Inr_iff split: option.splits)
  with riskTierEnum_of_pro_missing [OF assms] show ?thesis by simp
qed

lemma buildCreateGoalTx_result:
  assumes "buildCreateGoalTx env w n t mode rt c d = Inr r"
  shows "\<exists>target tier dl. tx_instruction (cg_transaction r) =
            CreateGoalIx n target (if mode = ''lite'' then Lite else Pro) tier c dl
         \<and> riskTierEnum_of mode rt = Inr tier"
  using assms unfolding buildCreateGoalTx_def Let_def
  by (auto simp: and_then_Inr_iff split: option.splits dest!: finish_tx_instruction)

lemma create_route_pro_without_tier:
  assumes "cb_mode body = Some ''pro''" and "falsy (cb_riskTier body)"
  shows "create_route env body = Reject 400 ''Missing required fields''
       \<or> create_route env body = Reject 400 ''Missing risk tier''"
  using assms by (simp add: create_route_def Let_def)

lemma create_route_pro_bad_tier:
  assumes "cb_mode body = Some ''pro''"
    and "cb_riskTier body \<noteq> Some ''low''" "cb_riskTier body \<noteq> Some ''medium''"
    and "cb_riskTier body \<noteq> Some ''high''"
  shows "\<exists>e. create_route env body = Reject 400 e"
  using assms by (simp add: create_route_def Let_def)

lemma create_respond_instruction:
  "create_respond env mode rt c d result = Ok200 resp \<Longrightarrow>
     cr_transaction resp = cg_transaction result
     \<and> cr_riskTier resp = (if mode = ''pro'' then rt else None)"
  by (auto simp: create_respond_def internal_error_def split: sum.splits if_splits)

lemma create_route_built:
  assumes "create_route env body = Ok200 resp"
  shows "\<exists>result cid dl.
           buildCreateGoalTx env (str_of (cb_walletAddress body)) (str_of (cb_name body))
             (cb_targetAmount body) (str_of (cb_mode body)) (cb_riskTier body) cid dl = Inr result
         \<and> create_respond env (str_of (cb_mode body)) (cb_riskTier body) cid dl result = Ok200 resp
         \<and> (cb_mode body = Some ''lite'' \<or> cb_mode body = Some ''pro'')
         \<and> (cb_mode body = Some ''pro'' \<longrightarrow> cb_riskTier body = Some ''low''
               \<or> cb_riskTier body = Some ''medium'' \<or> cb_riskTier body = Some ''high'')"
  using assms unfolding create_route_def Let_def internal_error_def
  by (simp split: if_splits sum.splits option.splits) blast

text \<open>
  C5, amended.  A goal-creation request in mode pro without a risk tier, or with a
  risk tier other than low, medium and high, is rejected with status 400 before the
  builder is called, and the builder itself throws on mode pro without a risk tier.  The
  instruction of a successful response carries a risk tier exactly when the mode is pro;
  for a lite goal a supplied risk tier is dropped, not rejected.
\<close>

theorem create_goal_risk_tier:
  "(cb_mode body = Some ''pro'' \<and> falsy (cb_riskTier body)
      \<longrightarrow> (\<exists>e. create_route env body = Reject 400 e))
   \<and> (cb_mode body = Some ''pro'' \<and> cb_riskTier body \<noteq> Some ''low''
        \<and> cb_riskTier body \<noteq> Some ''medium'' \<and> cb_riskTier body \<noteq> Some ''high''
      \<longrightarrow> (\<exists>e. create_route env body = Reject 400 e))
   \<and> (falsy rt \<longrightarrow> (\<exists>e. buildCreateGoalTx env w n t ''pro'' rt c d = Inl e))
   \<and> (create_route env body = Ok200 resp
      \<longrightarrow> (\<exists>name target mode tier cid dl.
             tx_instruction (cr_transaction resp) = CreateGoalIx name target mode tier cid dl
             \<and> (tier \<noteq> None \<longleftrightarrow> cb_mode body = Some ''pro'')
             \<and> (mode = Pro \<longleftrightarrow> cb_mode body = Some ''pro'')
             \<and> (cb_mode body = Some ''lite'' \<longrightarrow> tier = None \<and> cr_riskTier resp = None)))"
proof -
  have 1: "cb_mode body = Some ''pro'' \<and> falsy (cb_riskTier body)
      \<longrightarrow> (\<exists>e. create_route env body = Reject 400 e)"
    using create_route_pro_without_tier [of body env] by blast
  have 2: "cb_mode body = Some ''pro'' \<and> cb_riskTier body \<noteq> Some ''low''
        \<and> cb_riskTier body \<noteq> Some ''medium'' \<and> cb_riskTier body \<noteq> Some ''high''
      \<longrightarrow> (\<exists>e. create_route env body = Reject 400 e)"
    using create_route_pro_bad_tier [of body env] by blast
  have 3: "falsy rt \<longrightarrow> (\<exists>e. buildCreateGoalTx env w n t ''pro'' rt c d = Inl e)"
    using buildCreateGoalTx_pro_without_tier by blast
  have 4: "\<exists>name target mode tier cid dl.
             tx_instruction (cr_transaction resp) = CreateGoalIx name target mode tier cid dl
             \<and> (tier \<noteq> None \<longleftrightarrow> cb_mode body = Some ''pro'')
             \<and> (mode = Pro \<longleftrightarrow> cb_mode body = Some ''pro'')
             \<and> (cb_mode body = Some ''lite'' \<longrightarrow> tier = None \<and> cr_riskTier resp = None)"
    if ok: "create_route env body = Ok200 resp"
  proof -
    from create_route_built [OF ok] obtain result cid dl where
      b: "buildCreateGoalTx env (str_of (cb_walletAddress body)) (str_of (cb_name body))
             (cb_targetAmount body) (str_of (cb_mode body)) (cb_riskTier body) cid dl = Inr result"
      and r: "create_respond env (str_of (cb_mode body)) (cb_riskTier body) cid dl result
             = Ok200 resp"
      and m: "cb_mode body = Some ''lite'' \<or> cb_mode body = Some ''pro''"
      by blast
    from buildCreateGoalTx_result [OF b] obtain target tier dl' where
      ix: "tx_instruction (cg_transaction result) =
            CreateGoalIx (str_of (cb_name body)) target
              (if str_of (cb_mode body) = ''lite'' then Lite else Pro) tier cid dl'"
      and t: "riskTierEnum_of (str_of (cb_mode body)) (cb_riskTier body) = Inr tier"
      by blast
    from create_respond_instruction [OF r]
    have tx: "cr_transaction resp = cg_transaction result"
      and rt: "cr_riskTier resp = (if str_of (cb_mode body) = ''pro'' then cb_riskTier body else None)"
      by simp_all
    from riskTierEnum_of_cases [OF t] have tier: "tier \<noteq> None \<longleftrightarrow> str_of (cb_mode body) = ''pro''" .
    from m show ?thesis
    proof
      assume l: "cb_mode body = Some ''lite''"
      then have s: "str_of (cb_mode body) = ''lite''" by (simp add: str_of_def)
      from ix tx tier rt s l show ?thesis by auto
    next
      assume p: "cb_mode body = Some ''pro''"
      then have s: "str_of (cb_mode body) = ''pro''" by (simp add: str_of_def)
      from ix tx tier rt s p show ?thesis by auto
    qed
  qed
  from 1 2 3 4 show ?thesis by blast
qed

lemma demo_getUserAccount:
  "getUserAccount (demo_env now (Fetched u) goal faucet global) walletA = Inr (Some u)"
  by (simp add: getUserAccount_def new_PublicKey_def demo_env_fields demo_keys from_fetch_def
      null_if_missing_def)

lemma demo_user_fields:
  "demo_user = Fetched \<lparr> ua_owner = walletA, ua_totalGoalsCreated = 1, ua_activeGoals = 1,
      ua_lifetimeDeposits = 0, ua_lifetimeWithdrawals = 0 \<rparr>"
  by (simp add: demo_user_def)

lemma new_BN_examples:
  "new_BN (AmountString ''1000000'') = Inr 1000000"
  "new_BN (AmountString ''0'') = Inr 0"
  by (simp_all add: new_BN_def is_ws_def radix_digit_def digit_val_def Let_def)

lemma new_BN_more_examples:
  "new_BN (AmountString ''-3'') = Inr (- 3)"
  "new_BN (AmountNumber ''1.5'') = Inr 1"
  "new_BN (AmountString ''1.5'') = Inl ''Invalid character''"
  "new_BN (AmountNumber ''1e+21'') = Inl ''Assertion failed''"
  by (simp_all add: new_BN_def number_trunc_def strip_sign_def is_ws_def radix_digit_def
      digit_val_def Let_def)

lemma demo_build_create_lite:
  "\<exists>tx. tx_instruction tx = CreateGoalIx ''car'' 1000000 Lite None 0 1800000000 \<and>
     buildCreateGoalTx (demo_env now demo_user goal faucet global) walletA ''car''
        (AmountString ''1000000'') ''lite'' (Some ''high'') 0 1800000000 =
       Inr \<lparr> cg_transaction = tx,
             cg_goalAccount = getGoalAccountPDA demo_fpa [7] (map of_char walletA) 1,
             cg_goalIndex = 1 \<rparr>"
  by (simp add: buildCreateGoalTx_def demo_user_fields demo_getUserAccount demo_new_PublicKey
      demo_finish_tx demo_env_fields riskTierEnum_of_def new_BN_examples new_BN_number_def
      Let_def)

lemma lite_body_fields:
  "falsy (Some walletA) = False" "falsy (Some ''car'') = False" "falsy (Some ''lite'') = False"
  "falsy (Some ''pro'') = False" "falsy None = True"
  "str_of (Some s) = s"
  "amount_falsy (AmountString ''1000000'') = False"
  by (simp_all add: falsy_def str_of_def amount_falsy_def wallets_differ)

text \<open>
  C5 as stated fails: a lite goal created with risk tier "high" is built, with no risk
  tier in the instruction and \<open>null\<close> in the response.
\<close>

theorem lite_goal_with_risk_tier_counterexample:
  "(case create_route (demo_env 1700000000000 demo_user missing missing demo_global)
          \<lparr> cb_walletAddress = Some walletA, cb_name = Some ''car'',
            cb_targetAmount = AmountString ''1000000'', cb_mode = Some ''lite'',
            cb_riskTier = Some ''high'', cb_currencyId = Some 0,
            cb_deadline = Some 1800000000 \<rparr> of
      Reject code e \<Rightarrow> False
    | Ok200 resp \<Rightarrow>
        tx_instruction (cr_transaction resp)
          = CreateGoalIx ''car'' 1000000 Lite None 0 1800000000
        \<and> cr_riskTier resp = None)"
  using demo_build_create_lite [of 1700000000000 missing missing demo_global]
  by (auto simp: create_route_def create_respond_def lite_body_fields demo_user_fields
      demo_getUserAccount demo_getCurrencyConfig demo_now Let_def)

theorem create_goal_risk_tier_witness:
  "(case create_route (demo_env 1700000000000 demo_user missing missing demo_global)
          \<lparr> cb_walletAddress = Some walletA, cb_name = Some ''car'',
            cb_targetAmount = AmountString ''1000000'', cb_mode = Some ''pro'',
            cb_riskTier = None, cb_currencyId = Some 0,
            cb_deadline = Some 1800000000 \<rparr> of
      Reject code e \<Rightarrow> code = 400
    | Ok200 resp \<Rightarrow> False)"
proof -
  let ?env = "demo_env 1700000000000 demo_user missing missing demo_global"
  let ?body = "\<lparr> cb_walletAddress = Some walletA, cb_name = Some ''car'',
            cb_targetAmount = AmountString ''1000000'', cb_mode = Some ''pro'',
            cb_riskTier = None, cb_currencyId = Some 0,
            cb_deadline = Some 1800000000 \<rparr>"
  from create_goal_risk_tier [THEN conjunct1, of ?body ?env]
  have "\<exists>e. create_route ?env ?body = Reject 400 e" by (simp add: falsy_def)
  then show ?thesis by auto
qed

section \<open>Properties of the faucet route\<close>

lemma cooldown_exact:
  assumes "Date_now env < 2 ^ 53"
  shows "now_seconds env - parseInt_time t < cooldownPeriod
         \<longleftrightarrow> now_seconds env - t < 3600"
proof -
  from assms have "\<bar>now_seconds env\<bar> < 2 ^ 53" by (rule now_seconds_bound)
  moreover have "0 \<le> now_seconds env" by (simp add: now_seconds_def)
  moreover have "(3600::int) < 2 ^ 53" by simp
  ultimately have "\<bar>now_seconds env - 3600\<bar> < 2 ^ 53" by linarith
  then have "now_seconds env - 3600 < parseInt_time t \<longleftrightarrow> now_seconds env - 3600 < t"
    by (rule parseInt_time_less_iff)
  then show ?thesis unfolding cooldownPeriod_def by linarith
qed

lemma faucet_rate_limit_exact:
  assumes "Date_now env < 2 ^ 53"
  shows "faucet_rate_limit env (Some account) =
     (if now_seconds env - fa_lastClaimTime account < 3600 then Some (429, ''Cooldown active'')
      else if fa_claimsToday account \<ge> 10 then Some (429, ''Daily limit reached'')
      else None)"
  using cooldown_exact [OF assms, of "fa_lastClaimTime account"]
  by (simp add: faucet_rate_limit_def Let_def)

lemma faucet_route_rate_limit:
  assumes "\<not> falsy (fb_walletAddress body)"
    and "faucet_mint env body = Inr mint" and "\<not> falsy mint"
    and "FAUCET_ENABLED env = Some ''true''"
    and "getUserFaucetAccount env (str_of (fb_walletAddress body)) = Inr account"
  shows "faucet_route env body =
     (case faucet_rate_limit env account of
        Some (code, error) \<Rightarrow> Reject code error
      | None \<Rightarrow> faucet_build env (str_of (fb_walletAddress body)) (str_of mint))"
  using assms by (simp add: faucet_route_def Let_def)

text \<open>
  C6.  For a faucet claim that names a wallet and a token, with the faucet enabled and
  a FaucetAccount on the ledger: it is rejected with 429 when fewer than 3600 seconds
  have passed since the last claim, and with 429 when the account has 10 or more claims
  today whatever the time of the last claim; otherwise it goes on to the builder, as it
  does for a last claim 61 minutes ago with 9 claims today.
\<close>

theorem faucet_rate_limit_policy:
  assumes "\<not> falsy (fb_walletAddress body)"
    and "faucet_mint env body = Inr mint" and "\<not> falsy mint"
    and "FAUCET_ENABLED env = Some ''true''"
    and "getUserFaucetAccount env (str_of (fb_walletAddress body)) = Inr (Some account)"
    and "Date_now env < 2 ^ 53"
  shows "(now_seconds env - fa_lastClaimTime account < 3600
            \<longrightarrow> faucet_route env body = Reject 429 ''Cooldown active'')
       \<and> (fa_claimsToday account \<ge> 10 \<longrightarrow> (\<exists>e. faucet_route env body = Reject 429 e))
       \<and> (now_seconds env - fa_lastClaimTime account \<ge> 3600 \<and> fa_claimsToday account < 10
            \<longrightarrow> faucet_route env body
                  = faucet_build env (str_of (fb_walletAddress body)) (str_of mint))
       \<and> (fa_lastClaimTime account = now_seconds env - 61 * 60 \<and> fa_claimsToday account = 9
            \<longrightarrow> faucet_route env body
                  = faucet_build env (str_of (fb_walletAddress body)) (str_of mint))"
proof -
  have route: "faucet_route env body =
     (if now_seconds env - fa_lastClaimTime account < 3600 then Reject 429 ''Cooldown active''
      else if fa_claimsToday account \<ge> 10 then Reject 429 ''Daily limit reached''
      else faucet_build env (str_of (fb_walletAddress body)) (str_of mint))"
    using faucet_route_rate_limit [OF assms(1-5)] faucet_rate_limit_exact [OF assms(6), of account]
    by simp
  have 1: "now_seconds env - fa_lastClaimTime account < 3600
            \<longrightarrow> faucet_route env body = Reject 429 ''Cooldown active''"
    using route by simp
  have 2: "fa_claimsToday account \<ge> 10 \<longrightarrow> (\<exists>e. faucet_route env body = Reject 429 e)"
    using route by simp
  have 3: "now_seconds env - fa_lastClaimTime account \<ge> 3600 \<and> fa_claimsToday account < 10
            \<longrightarrow> faucet_route env body
                  = faucet_build env (str_of (fb_walletAddress body)) (str_of mint)"
    using route by simp
  have 4: "fa_lastClaimTime account = now_seconds env - 61 * 60 \<and> fa_claimsToday account = 9
            \<longrightarrow> faucet_route env body
                  = faucet_build env (str_of (fb_walletAddress body)) (str_of mint)"
    using route by simp
  from 1 2 3 4 show ?thesis by blast
qed

lemma demo_getUserFaucetAccount:
  "getUserFaucetAccount (demo_env now user goal (Fetched a) global) walletA = Inr (Some a)"
  by (simp add: getUserFaucetAccount_def new_PublicKey_def demo_env_fields demo_keys
      from_fetch_def null_if_missing_def)

lemma demo_getFaucetConfig:
  "getFaucetConfig (demo_env now user goal faucet global) = Inr None"
  by (simp add: getFaucetConfig_def demo_env_fields from_fetch_def null_if_missing_def
      missing_def missing_message)

lemma demo_faucet_build:
  "\<exists>tx acct. tx_instruction tx = ClaimTokensIx \<and>
     faucet_build (demo_env now user goal faucet global) walletA mintU =
       Ok200 \<lparr> fr_transaction = tx, fr_amount = None, fr_userTokenAccount = acct \<rparr>"
  by (simp add: faucet_build_def buildClaimFaucetTx_def demo_new_PublicKey demo_token_address
      demo_finish_tx demo_getFaucetConfig Let_def)

text \<open>
  A last claim 30 minutes ago is rejected for the cooldown; a last claim 61 minutes ago
  with 9 claims today is answered with the claim transaction; 10 claims today are
  rejected two hours after the last claim.
\<close>

theorem faucet_rate_limit_policy_witness:
  "faucet_route
      (demo_env 1700000000000 demo_user missing
         (Fetched \<lparr> fa_user = walletA, fa_lastClaimTime = 1699998200, fa_claimsToday = 1,
                    fa_totalClaims = 1 \<rparr>) demo_global)
      \<lparr> fb_walletAddress = Some walletA, fb_tokenMint = Some mintU, fb_currencyId = None \<rparr>
     = Reject 429 ''Cooldown active''
   \<and> (case faucet_route
      (demo_env 1700000000000 demo_user missing
         (Fetched \<lparr> fa_user = walletA, fa_lastClaimTime = 1699996340, fa_claimsToday = 9,
                    fa_totalClaims = 9 \<rparr>) demo_global)
      \<lparr> fb_walletAddress = Some walletA, fb_tokenMint = Some mintU, fb_currencyId = None \<rparr> of
        Reject code e \<Rightarrow> False
      | Ok200 resp \<Rightarrow> tx_instruction (fr_transaction resp) = ClaimTokensIx)
   \<and> (case faucet_route
      (demo_env 1700000000000 demo_user missing
         (Fetched \<lparr> fa_user = walletA, fa_lastClaimTime = 1699992800, fa_claimsToday = 10,
                    fa_totalClaims = 10 \<rparr>) demo_global)
      \<lparr> fb_walletAddress = Some walletA, fb_tokenMint = Some mintU, fb_currencyId = None \<rparr> of
        Reject code e \<Rightarrow> code = 429
      | Ok200 resp \<Rightarrow> False)"
proof -
  let ?a3 = "\<lparr> fa_user = walletA, fa_lastClaimTime = 1699992800, fa_claimsToday = 10,
                    fa_totalClaims = 10 \<rparr>"
  let ?e3 = "demo_env 1700000000000 demo_user missing (Fetched ?a3) demo_global"
  let ?a1 = "\<lparr> fa_user = walletA, fa_lastClaimTime = 1699998200, fa_claimsToday = 1,
                    fa_totalClaims = 1 \<rparr>"
  let ?a2 = "\<lparr> fa_user = walletA, fa_lastClaimTime = 1699996340, fa_claimsToday = 9,
                    fa_totalClaims = 9 \<rparr>"
  let ?e1 = "demo_env 1700000000000 demo_user missing (Fetched ?a1) demo_global"
  let ?e2 = "demo_env 1700000000000 demo_user missing (Fetched ?a2) demo_global"
  let ?body = "\<lparr> fb_walletAddress = Some walletA, fb_tokenMint = Some mintU,
      fb_currencyId = None \<rparr>"
  have w: "\<not> falsy (fb_walletAddress ?body)" by (simp add: mint_not_falsy)
  have m: "faucet_mint env ?body = Inr (Some mintU)" for env
    by (simp add: faucet_mint_def mint_not_falsy)
  have s: "str_of (fb_walletAddress ?body) = walletA" "str_of (Some mintU) = mintU"
    by (simp_all add: str_of_def)
  have f1: "getUserFaucetAccount ?e1 (str_of (fb_walletAddress ?body)) = Inr (Some ?a1)"
    unfolding s by (rule demo_getUserFaucetAccount)
  have f2: "getUserFaucetAccount ?e2 (str_of (fb_walletAddress ?body)) = Inr (Some ?a2)"
    unfolding s by (rule demo_getUserFaucetAccount)
  have en: "FAUCET_ENABLED ?e1 = Some ''true''" "FAUCET_ENABLED ?e2 = Some ''true''"
    by (simp_all add: demo_env_fields)
  have n: "Date_now ?e1 < 2 ^ 53" "Date_now ?e2 < 2 ^ 53" by (simp_all add: demo_env_fields)
  from faucet_rate_limit_policy [OF w m mint_not_falsy(1) en(1) f1 n(1)]
  have 1: "faucet_route ?e1 ?body = Reject 429 ''Cooldown active''"
    by (simp add: demo_now)
  from faucet_rate_limit_policy [OF w m mint_not_falsy(1) en(2) f2 n(2)]
  have "faucet_route ?e2 ?body = faucet_build ?e2 walletA mintU"
    by (simp add: demo_now str_of_def)
  with demo_faucet_build [of 1700000000000 demo_user missing "Fetched ?a2" demo_global]
  have 2: "case faucet_route ?e2 ?body of
        Reject code e \<Rightarrow> False
      | Ok200 resp \<Rightarrow> tx_instruction (fr_transaction resp) = ClaimTokensIx"
    by auto
  have f3: "getUserFaucetAccount ?e3 (str_of (fb_walletAddress ?body)) = Inr (Some ?a3)"
    unfolding s by (rule demo_getUserFaucetAccount)
  have en3: "FAUCET_ENABLED ?e3 = Some ''true''" and n3: "Date_now ?e3 < 2 ^ 53"
    by (simp_all add: demo_env_fields)
  from faucet_rate_limit_policy [OF w m mint_not_falsy(1) en3 f3 n3]
  have "\<exists>e. faucet_route ?e3 ?body = Reject 429 e" by simp
  then have 3: "case faucet_route ?e3 ?body of
        Reject code e \<Rightarrow> code = 429
      | Ok200 resp \<Rightarrow> False"
    by auto
  from 1 2 3 show ?thesis by blast
qed

section \<open>Properties of the deposit route\<close>

lemma validateAmount_Inr_iff:
  "validateAmount a = Inr v \<longleftrightarrow>
     a \<noteq> AmountUndefined \<and> a \<noteq> AmountNull \<and> v = amount_toString a \<and> all_digits v
     \<and> int (digits_value 10 0 v) \<le> MAX_U64"
  by (auto simp: validateAmount_def Let_def all_digits_def amount_toString_def)

lemma deposit_invalid_amount_rejected:
  assumes "validateAmount (db_amount body) = Inl e"
  shows "deposit_route env body = Reject 400 ''Missing required fields''
       \<or> deposit_route env body = Reject 400 ''Invalid amount''"
  using assms by (simp add: deposit_route_def Let_def)

lemma demo_build_deposit:
  "\<exists>tx. tx_instruction tx = DepositIx 0 \<and>
     (\<exists>m a. buildDepositTx (demo_env now user goal faucet global) walletA 0 (AmountString ''0'') 0 =
       Inr \<lparr> dp_transaction = tx, dp_savingsTokenMint = m, dp_userSavingsTokenAccount = a \<rparr>)"
  by (simp add: buildDepositTx_def demo_new_PublicKey demo_getCurrencyConfig demo_token_address
      demo_finish_tx new_BN_examples Let_def)

lemma zero_amount_passes:
  "validateAmount (AmountString ''0'') = Inr ''0''"
  by (simp add: validateAmount_def amount_toString_def all_digits_def radix_digit_def
      digit_val_def MAX_U64_def Let_def)

text \<open>
  C7 at the amount \<open>"0"\<close>: the validation accepts it and the deposit route builds a
  deposit of zero, although the error texts of \<open>validateAmount\<close> ask for a positive
  integer.
\<close>

theorem deposit_zero_amount_accepted:
  "validateAmount (AmountString ''0'') = Inr ''0''
   \<and> (case deposit_route
           (demo_env 1700000000000 demo_user (Fetched (demo_goal 10000 0 1800000000)) missing
              demo_global)
           \<lparr> db_walletAddress = Some walletA, db_goalIndex = Some 0,
             db_amount = AmountString ''0'', db_currencyId = Some 0 \<rparr> of
        Reject code e \<Rightarrow> False
      | Ok200 resp \<Rightarrow> tx_instruction (dr_transaction resp) = DepositIx 0
                      \<and> dr_depositAmount resp = ''0'')"
  using demo_build_deposit [of 1700000000000 demo_user
      "Fetched (demo_goal 10000 0 1800000000)" missing demo_global]
  by (auto simp: zero_amount_passes deposit_route_def validateCurrencyId_def lite_body_fields
      amount_falsy_def amount_toString_def demo_getGoalAccount demo_goal_fields Let_def)


end
